theory Spec2Isabelle
  imports Complex_Main
begin

section \<open>Run.py: the Run class of the BarSed wave flume library\<close>

text \<open>
  The embedding follows \<^verbatim>\<open>src/lib/data_classes/Run.py\<close>. A method of \<^verbatim>\<open>Run\<close> that
  mutates \<^verbatim>\<open>self\<close> is a function from the object's state to a pair: the exception
  raised (\<open>None\<close> if the call returns) and the state the object is left in. Assignments made
  before a \<^verbatim>\<open>raise\<close> stay in that state, as they do in Python.
\<close>

subsection \<open>Exceptions\<close>

text \<open>
  The built-in exceptions the methods can end in. \<open>TypeError\<close> carries its message,
  \<open>AttributeError\<close> the name of the attribute that is missing.
\<close>

datatype exn =
    TypeError string
  | IndexError
  | AttributeError string
  | ValueError
  | OverflowError

subsection \<open>float64 numbers\<close>

text \<open>
  The time codes, the offset and the day counts are float64 values. A finite float64 is
  read as the rational number it denotes. \<open>fl64\<close> rounds a rational to the nearest
  float64, a tie going to the even mantissa: the unit in the last place of \<open>x\<close> is
  \<open>2\<close> to the power \<open>\<lfloor>log\<^sub>2 \<bar>x\<bar>\<rfloor> - 52\<close>, and not below \<open>2\<close> to the power
  \<open>-1074\<close>, that of the subnormal numbers. A result above \<open>max_float64\<close> stands for
  an infinity. The codes being finite, no NaN arises.
\<close>

definition round_half_even :: "rat \<Rightarrow> int" where
  "round_half_even q =
     (let f = \<lfloor>q\<rfloor>; d = q - of_int f
      in if d < 1 / 2 then f
         else if 1 / 2 < d then f + 1
         else if even f then f else f + 1)"

fun ilog2 :: "nat \<Rightarrow> nat" where
  "ilog2 n = (if n < 2 then 0 else Suc (ilog2 (n div 2)))"

declare ilog2.simps [simp del]

text \<open>\<open>\<lfloor>log\<^sub>2 x\<rfloor>\<close> for a positive \<open>x\<close>\<close>

definition floor_log2 :: "rat \<Rightarrow> int" where
  "floor_log2 x =
     (if 1 \<le> x then int (ilog2 (nat \<lfloor>x\<rfloor>))
      else - int (Suc (ilog2 (nat \<lceil>1 / x\<rceil> - 1))))"

definition pow2 :: "int \<Rightarrow> rat" where
  "pow2 e = (if 0 \<le> e then 2 ^ nat e else 1 / 2 ^ nat (- e))"

definition ulp64 :: "rat \<Rightarrow> rat" where
  "ulp64 x = pow2 (max (floor_log2 \<bar>x\<bar> - 52) (- 1074))"

definition fl64 :: "rat \<Rightarrow> rat" where
  "fl64 x = (if x = 0 then 0 else of_int (round_half_even (x / ulp64 x)) * ulp64 x)"

definition max_float64 :: rat where
  "max_float64 = (2 ^ 53 - 1) * 2 ^ 971"

text \<open>The sum of two float64 values, as numpy and Python compute it.\<close>

definition float64_add :: "rat \<Rightarrow> rat \<Rightarrow> rat" where
  "float64_add x y = fl64 (x + y)"

subsection \<open>datetime and timedelta\<close>

text \<open>
  A \<^verbatim>\<open>datetime.timedelta\<close> is a whole number of microseconds, and a naive
  \<^verbatim>\<open>datetime.datetime\<close> is the number of microseconds since
  \<^verbatim>\<open>datetime(1, 1, 1)\<close>, at least 0 and below that of 10000-01-01
  (\<^verbatim>\<open>datetime.max\<close> is 9999-12-31 23:59:59.999999, ordinal day 3652059).
  A \<^verbatim>\<open>datetime.date\<close> is the number of whole days since 0001-01-01.

  \<^verbatim>\<open>timedelta(days = t)\<close> for a float \<open>t\<close> follows CPython: \<^verbatim>\<open>modf\<close> splits
  \<open>t\<close> into its whole days, which count exactly, and its fractional day, which is
  multiplied by 86400000000 in float64; the sum of the two is rounded to the nearest
  microsecond, a tie going to the even microsecond. An infinite \<open>t\<close> cannot be converted
  to an integer, and a result of more than 999999999 days in absolute value is refused:
  both are an OverflowError.
\<close>

type_synonym timedelta = int
type_synonym datetime = int
type_synonym date = int

definition us_per_day :: int where
  "us_per_day = 86400000000"

definition max_ordinal :: int where
  "max_ordinal = 3652059"

text \<open>The whole part that \<^verbatim>\<open>modf\<close> returns: \<open>t\<close> truncated towards zero.\<close>

definition modf_intpart :: "rat \<Rightarrow> int" where
  "modf_intpart t = (if 0 \<le> t then \<lfloor>t\<rfloor> else - \<lfloor>- t\<rfloor>)"

definition microseconds_of_days :: "rat \<Rightarrow> int" where
  "microseconds_of_days t =
     round_half_even (of_int (modf_intpart t * us_per_day) +
                      fl64 (of_int us_per_day * (t - of_int (modf_intpart t))))"

definition timedelta_days :: "rat \<Rightarrow> exn + timedelta" where
  "timedelta_days t =
     (if max_float64 < \<bar>t\<bar> then Inl OverflowError
      else let us = microseconds_of_days t
           in if \<bar>us div us_per_day\<bar> \<le> 999999999 then Inr us else Inl OverflowError)"

definition datetime_1_1_1 :: datetime where
  "datetime_1_1_1 = 0"

definition datetime_add :: "datetime \<Rightarrow> timedelta \<Rightarrow> exn + datetime" where
  "datetime_add dt delta =
     (let r = dt + delta
      in if 0 \<le> r \<and> r < max_ordinal * us_per_day then Inr r else Inl OverflowError)"

definition date_of :: "datetime \<Rightarrow> date" where
  "date_of dt = dt div us_per_day"

text \<open>A day count whose timestamp \<^verbatim>\<open>datetime(1, 1, 1) + timedelta(days = t)\<close> exists.\<close>

definition in_datetime_range :: "rat \<Rightarrow> bool" where
  "in_datetime_range t =
     (\<bar>t\<bar> \<le> max_float64 \<and>
      0 \<le> microseconds_of_days t \<and> microseconds_of_days t < max_ordinal * us_per_day)"

subsection \<open>WaveGauge, WaveMaker and the values a method can be handed\<close>

text \<open>
  Modelled from the spec: the classes \<^verbatim>\<open>WaveGauge\<close> and \<^verbatim>\<open>WaveMaker\<close> are imported
  from \<^verbatim>\<open>lib.data_classes\<close> and are not part of the source at hand. Run.py builds them
  as \<^verbatim>\<open>WaveGauge(id, location, eta, datetime)\<close> and
  \<^verbatim>\<open>WaveMaker(eta_wm, x_wm, datetime)\<close> and reads the attributes \<^verbatim>\<open>id\<close>,
  \<^verbatim>\<open>location\<close>, \<^verbatim>\<open>eta\<close> of the first and \<^verbatim>\<open>eta_wm\<close>, \<^verbatim>\<open>position\<close>
  of the second. Following the spec's GaugeRecord (identifier, location pair, elevation
  series, shared time axis) and ActuatorRecord (elevation series, position series, shared
  time axis), the constructors store their arguments in these attributes.

  The samples (elevations and positions) are only copied by Run.py, so their type is a
  parameter \<open>'a\<close>; \<open>0\<close> is what \<^verbatim>\<open>np.zeros\<close> fills with.
\<close>

record 'a WaveGauge =
  wg_id :: nat
  wg_location :: "'a \<times> 'a"
  wg_eta :: "'a list"
  wg_datetime :: "datetime list option"

record 'a WaveMaker =
  eta_wm :: "'a list"
  position :: "'a list"
  wm_datetime :: "datetime list option"

text \<open>
  Python is dynamically typed: \<^verbatim>\<open>add_wave_maker\<close> and \<^verbatim>\<open>add_wave_gauge\<close> test the
  class of their argument with \<^verbatim>\<open>isinstance\<close>, and a Python list holds any objects.
  \<open>OtherObj c\<close> is an instance of any further class, \<open>c\<close> being what
  \<^verbatim>\<open>type(...)\<close> prints between the quotes.
\<close>

datatype 'a pyobj =
    WaveGaugeObj "'a WaveGauge"
  | WaveMakerObj "'a WaveMaker"
  | ListObj "'a pyobj list"
  | NoneObj
  | IntObj int
  | StrObj string
  | OtherObj string

fun type_name :: "'a pyobj \<Rightarrow> string" where
  "type_name (WaveGaugeObj g) = ''lib.data_classes.WaveGauge.WaveGauge''"
| "type_name (WaveMakerObj w) = ''lib.data_classes.WaveMaker.WaveMaker''"
| "type_name (ListObj xs) = ''list''"
| "type_name NoneObj = ''NoneType''"
| "type_name (IntObj i) = ''int''"
| "type_name (StrObj s) = ''str''"
| "type_name (OtherObj c) = c"

text \<open>\<^verbatim>\<open>f"{type(x)}"\<close>\<close>

definition type_repr :: "'a pyobj \<Rightarrow> string" where
  "type_repr v = ''<class '' @ [CHR 0x27] @ type_name v @ [CHR 0x27] @ ''>''"

text \<open>\<^verbatim>\<open>isinstance(x, WaveMaker)\<close>, \<^verbatim>\<open>isinstance(x, WaveGauge)\<close> and
  \<^verbatim>\<open>isinstance(x, list)\<close>\<close>

fun isinstance_WaveMaker :: "'a pyobj \<Rightarrow> bool" where
  "isinstance_WaveMaker (WaveMakerObj w) = True"
| "isinstance_WaveMaker _ = False"

fun isinstance_WaveGauge :: "'a pyobj \<Rightarrow> bool" where
  "isinstance_WaveGauge (WaveGaugeObj g) = True"
| "isinstance_WaveGauge _ = False"

fun isinstance_list :: "'a pyobj \<Rightarrow> bool" where
  "isinstance_list (ListObj xs) = True"
| "isinstance_list _ = False"

subsection \<open>Two-dimensional numpy arrays\<close>

text \<open>
  A two-dimensional \<^verbatim>\<open>ndarray\<close> keeps its shape beside its rows, so that an array with
  no rows still has a number of columns.
\<close>

record 'a ndarray2 =
  nrows :: nat
  ncols :: nat
  rows_of :: "'a list list"

definition np_zeros :: "nat \<Rightarrow> nat \<Rightarrow> ('a::zero) ndarray2" where
  "np_zeros t g = \<lparr>nrows = t, ncols = g, rows_of = replicate t (replicate g 0)\<rparr>"

text \<open>
  Broadcasting a one-dimensional array to length \<open>n\<close>: an array of that length is taken
  as it is, an array of length 1 is repeated, anything else is a ValueError.
\<close>

definition broadcast1 :: "nat \<Rightarrow> 'b list \<Rightarrow> exn + 'b list" where
  "broadcast1 n v =
     (if length v = n then Inr v
      else if length v = 1 then Inr (replicate n (hd v))
      else Inl ValueError)"

text \<open>\<^verbatim>\<open>a[:, i] = v\<close> for a one-dimensional \<open>v\<close>: the index is checked, then \<open>v\<close> is
  broadcast along the rows.\<close>

definition set_column :: "'a ndarray2 \<Rightarrow> nat \<Rightarrow> 'a list \<Rightarrow> exn + 'a ndarray2" where
  "set_column a i v =
     (if ncols a \<le> i then Inl IndexError
      else case broadcast1 (nrows a) v of
             Inl e \<Rightarrow> Inl e
           | Inr w \<Rightarrow> Inr (a\<lparr>rows_of := map2 (\<lambda>r c. r[i := c]) (rows_of a) w\<rparr>))"

text \<open>\<^verbatim>\<open>a[:, 1:] = v\<close> for a one-dimensional \<open>v\<close>: \<open>v\<close> is broadcast to the
  \<open>ncols a - 1\<close> columns of the slice and written into every row.\<close>

definition set_columns_from1_vec :: "'a ndarray2 \<Rightarrow> 'a list \<Rightarrow> exn + 'a ndarray2" where
  "set_columns_from1_vec a v =
     (case broadcast1 (ncols a - 1) v of
        Inl e \<Rightarrow> Inl e
      | Inr w \<Rightarrow> Inr (a\<lparr>rows_of := map (\<lambda>r. take 1 r @ w) (rows_of a)\<rparr>))"

text \<open>\<^verbatim>\<open>a[:, 1:] = b\<close> for a two-dimensional \<open>b\<close>: each axis of \<open>b\<close> has the length
  of the slice's axis or length 1.\<close>

definition set_columns_from1_mat :: "'a ndarray2 \<Rightarrow> 'a ndarray2 \<Rightarrow> exn + 'a ndarray2" where
  "set_columns_from1_mat a b =
     (if (ncols b = ncols a - 1 \<or> ncols b = 1) \<and> (nrows b = nrows a \<or> nrows b = 1)
      then case broadcast1 (nrows a) (rows_of b) of
             Inl e \<Rightarrow> Inl e
           | Inr bs \<Rightarrow>
               Inr (a\<lparr>rows_of :=
                     map2 (\<lambda>r s. take 1 r @
                                  (if length s = ncols a - 1 then s
                                   else replicate (ncols a - 1) (hd s)))
                          (rows_of a) bs\<rparr>)
      else Inl ValueError)"

subsection \<open>The Run object\<close>

text \<open>
  The attributes of \<^verbatim>\<open>__init__\<close>, where Python's \<^verbatim>\<open>None\<close> is \<open>None\<close>, and the four
  attributes that only the \<^verbatim>\<open>construct_...\<close> and \<^verbatim>\<open>get_...\<close> methods create
  (\<^verbatim>\<open>wave_gauge_wse\<close>, \<^verbatim>\<open>wg_locations\<close>, \<^verbatim>\<open>flume_wse\<close>, \<^verbatim>\<open>flume_wse_locs\<close>),
  where \<open>None\<close> says that the object has no such attribute yet. The DataFrame
  \<^verbatim>\<open>wg_locations\<close> is its list of rows, a row being the pair of its columns
  \<^verbatim>\<open>x_loc\<close> and \<^verbatim>\<open>y_loc\<close>.
\<close>

record 'a Run =
  run_id :: string
  wave_file_path :: string
  datetime :: "datetime list option"
  start_date :: "date option"
  num_times :: "nat option"
  wave_gauges :: "'a pyobj list"
  num_wave_gauges :: "nat option"
  wave_maker :: "'a WaveMaker option"
  wave_gauge_wse :: "'a ndarray2 option"
  wg_locations :: "('a \<times> 'a) list option"
  flume_wse :: "'a ndarray2 option"
  flume_wse_locs :: "'a ndarray2 option"

type_synonym 'a outcome = "exn option \<times> 'a Run"

definition Run_init :: "string \<Rightarrow> string \<Rightarrow> 'a Run" where
  "Run_init i path =
     \<lparr>run_id = i, wave_file_path = path, datetime = None, start_date = None,
      num_times = None, wave_gauges = [], num_wave_gauges = None, wave_maker = None,
      wave_gauge_wse = None, wg_locations = None, flume_wse = None, flume_wse_locs = None\<rparr>"

subsection \<open>Time conversion\<close>

text \<open>
  The loop of \<^verbatim>\<open>_convert_mat_time_and_store\<close> over the shifted codes: each code becomes
  a timedelta, which is added to \<^verbatim>\<open>datetime(1, 1, 1)\<close> and appended. The shift
  \<^verbatim>\<open>mat_time + time_offset\<close> before the loop is numpy's sum of float64 values.
\<close>

fun experiment_datetime_loop :: "rat list \<Rightarrow> datetime list \<Rightarrow> exn + datetime list" where
  "experiment_datetime_loop [] experiment_datetime = Inr experiment_datetime"
| "experiment_datetime_loop (time # rest) experiment_datetime =
     (case timedelta_days time of
        Inl e \<Rightarrow> Inl e
      | Inr delta_datetime \<Rightarrow>
          (case datetime_add datetime_1_1_1 delta_datetime of
             Inl e \<Rightarrow> Inl e
           | Inr d \<Rightarrow> experiment_datetime_loop rest (experiment_datetime @ [d])))"

definition convert_mat_time_and_store :: "rat \<Rightarrow> rat list \<Rightarrow> 'a Run \<Rightarrow> 'a outcome" where
  "convert_mat_time_and_store time_offset mat_time self =
     (let mat_time' = map (\<lambda>t. float64_add t time_offset) mat_time
      in case experiment_datetime_loop mat_time' [] of
           Inl e \<Rightarrow> (Some e, self)
         | Inr experiment_datetime \<Rightarrow>
             (let self1 = self\<lparr>datetime := Some experiment_datetime\<rparr>
              in case experiment_datetime of
                   [] \<Rightarrow> (Some IndexError, self1)
                 | d0 # _ \<Rightarrow>
                     (None, self1\<lparr>start_date := Some (date_of d0),
                                  num_times := Some (length experiment_datetime)\<rparr>)))"

subsection \<open>Constructing the wave maker and the wave gauges\<close>

definition construct_wave_maker :: "'a list \<Rightarrow> 'a list \<Rightarrow> 'a Run \<Rightarrow> 'a outcome" where
  "construct_wave_maker e_wm x_wm self =
     (None, self\<lparr>wave_maker :=
                   Some \<lparr>eta_wm = e_wm, position = x_wm, wm_datetime = datetime self\<rparr>\<rparr>)"

definition add_wave_maker :: "'a pyobj \<Rightarrow> 'a Run \<Rightarrow> 'a outcome" where
  "add_wave_maker wm self =
     (case wm of
        WaveMakerObj w \<Rightarrow> (None, self\<lparr>wave_maker := Some w\<rparr>)
      | _ \<Rightarrow> (Some (TypeError (''Type must be WaveMaker. Input type is '' @ type_repr wm)),
              self))"

definition add_wave_gauge :: "'a pyobj \<Rightarrow> 'a Run \<Rightarrow> 'a outcome" where
  "add_wave_gauge wave_gauge self =
     (case wave_gauge of
        ListObj gs \<Rightarrow>
          (let self1 = self\<lparr>wave_gauges := wave_gauges self @ gs\<rparr>
           in (None, self1\<lparr>num_wave_gauges := Some (length (wave_gauges self1))\<rparr>))
      | WaveGaugeObj g \<Rightarrow>
          (let self1 = self\<lparr>wave_gauges := wave_gauges self @ [WaveGaugeObj g]\<rparr>
           in (None, self1\<lparr>num_wave_gauges := Some (length (wave_gauges self1))\<rparr>))
      | _ \<Rightarrow>
          (Some (TypeError (''The type must be a list or a WaveGauge object'' @ [CHR 0x0A] @
                            ''Input type is: '' @ type_repr wave_gauge)),
           self))"

text \<open>
  The loop of \<^verbatim>\<open>_construct_wave_gauges\<close> over \<^verbatim>\<open>enumerate(zip(x_loc, y_loc))\<close>:
  \<open>i\<close> is the running index \<^verbatim>\<open>id\<close>; \<^verbatim>\<open>eta[id]\<close> indexes the first axis of the
  two-dimensional array \<^verbatim>\<open>eta\<close>, given as the list of its rows, and raises IndexError
  beyond the last row.
\<close>

fun wave_gauge_loop ::
  "nat \<Rightarrow> ('a \<times> 'a) list \<Rightarrow> 'a list list \<Rightarrow> datetime list option \<Rightarrow> 'a pyobj list
     \<Rightarrow> exn + 'a pyobj list" where
  "wave_gauge_loop i [] eta dts wave_gauge_list = Inr wave_gauge_list"
| "wave_gauge_loop i (location # rest) eta dts wave_gauge_list =
     (if i < length eta
      then wave_gauge_loop (i + 1) rest eta dts
             (wave_gauge_list @
                [WaveGaugeObj \<lparr>wg_id = i + 1, wg_location = location, wg_eta = eta ! i,
                                wg_datetime = dts\<rparr>])
      else Inl IndexError)"

definition construct_wave_gauges ::
  "'a list \<Rightarrow> 'a list \<Rightarrow> 'a list list \<Rightarrow> 'a Run \<Rightarrow> 'a outcome" where
  "construct_wave_gauges x_loc y_loc eta self =
     (case wave_gauge_loop 0 (zip x_loc y_loc) eta (datetime self) [] of
        Inl e \<Rightarrow> (Some e, self)
      | Inr wave_gauge_list \<Rightarrow> add_wave_gauge (ListObj wave_gauge_list) self)"

subsection \<open>Loading\<close>

text \<open>
  \<^verbatim>\<open>load_wave_data\<close> reads the file with \<^verbatim>\<open>scipy.io.loadmat\<close> and unpacks six
  arrays from the structure \<^verbatim>\<open>eta\<close>. The model starts from these arrays: \<^verbatim>\<open>date\<close>,
  \<^verbatim>\<open>x\<close>, \<^verbatim>\<open>y\<close>, \<^verbatim>\<open>eta_wm\<close> and \<^verbatim>\<open>x_wm\<close> flattened, \<^verbatim>\<open>eta\<close> as the list of
  its rows (the entries of its first axis).
\<close>

record 'a container =
  c_date :: "rat list"
  c_eta :: "'a list list"
  c_x :: "'a list"
  c_y :: "'a list"
  c_eta_wm :: "'a list"
  c_x_wm :: "'a list"

definition time_offset :: rat where
  "time_offset = - 1 * (365 + 2)"

definition load_wave_data :: "'a container \<Rightarrow> 'a Run \<Rightarrow> 'a outcome" where
  "load_wave_data c self =
     (case convert_mat_time_and_store time_offset (c_date c) self of
        (Some e, self1) \<Rightarrow> (Some e, self1)
      | (None, self1) \<Rightarrow>
          (case construct_wave_maker (c_eta_wm c) (c_x_wm c) self1 of
             (Some e, self2) \<Rightarrow> (Some e, self2)
           | (None, self2) \<Rightarrow> construct_wave_gauges (c_x c) (c_y c) (c_eta c) self2))"

subsection \<open>The derived matrices\<close>

text \<open>
  The loop of \<^verbatim>\<open>construct_wave_gauge_wse\<close>:
  \<^verbatim>\<open>surface_elevations[:, i] = wave_gauge.eta\<close>. Only a WaveGauge has the attribute
  \<^verbatim>\<open>eta\<close>; the other objects of the model have none of the attributes Run.py reads.
\<close>

fun surface_elevations_loop ::
  "nat \<Rightarrow> 'a pyobj list \<Rightarrow> 'a ndarray2 \<Rightarrow> exn + 'a ndarray2" where
  "surface_elevations_loop i [] surface_elevations = Inr surface_elevations"
| "surface_elevations_loop i (wave_gauge # rest) surface_elevations =
     (case wave_gauge of
        WaveGaugeObj g \<Rightarrow>
          (case set_column surface_elevations i (wg_eta g) of
             Inl e \<Rightarrow> Inl e
           | Inr surface_elevations' \<Rightarrow>
               surface_elevations_loop (i + 1) rest surface_elevations')
      | _ \<Rightarrow> Inl (AttributeError ''eta''))"

definition not_an_integer :: string where
  "not_an_integer =
     [CHR 0x27] @ ''NoneType'' @ [CHR 0x27] @ '' object cannot be interpreted as an integer''"

definition construct_wave_gauge_wse :: "('a::zero) Run \<Rightarrow> 'a outcome" where
  "construct_wave_gauge_wse self =
     (case (num_times self, num_wave_gauges self) of
        (Some t, Some g) \<Rightarrow>
          (case surface_elevations_loop 0 (wave_gauges self) (np_zeros t g) of
             Inl e \<Rightarrow> (Some e, self)
           | Inr surface_elevations \<Rightarrow>
               (None, self\<lparr>wave_gauge_wse := Some surface_elevations\<rparr>))
      | _ \<Rightarrow> (Some (TypeError not_an_integer), self))"

text \<open>
  The loop of \<^verbatim>\<open>get_wave_gauge_locations\<close> writes row \<open>i\<close> of the
  \<open>num_wave_gauges \<times> 2\<close> array \<^verbatim>\<open>location\<close>, here the list of its rows as pairs.
\<close>

fun location_loop ::
  "nat \<Rightarrow> 'a pyobj list \<Rightarrow> ('a \<times> 'a) list \<Rightarrow> exn + ('a \<times> 'a) list" where
  "location_loop i [] location = Inr location"
| "location_loop i (wave_gauge # rest) location =
     (case wave_gauge of
        WaveGaugeObj g \<Rightarrow>
          (if i < length location
           then location_loop (i + 1) rest (location[i := wg_location g])
           else Inl IndexError)
      | _ \<Rightarrow> Inl (AttributeError ''location''))"

definition get_wave_gauge_locations :: "('a::zero) Run \<Rightarrow> 'a outcome" where
  "get_wave_gauge_locations self =
     (case num_wave_gauges self of
        None \<Rightarrow> (Some (TypeError not_an_integer), self)
      | Some g \<Rightarrow>
          (case location_loop 0 (wave_gauges self) (replicate g (0, 0)) of
             Inl e \<Rightarrow> (Some e, self)
           | Inr location \<Rightarrow> (None, self\<lparr>wg_locations := Some location\<rparr>)))"

definition unsupported_operand :: string where
  "unsupported_operand =
     ''unsupported operand type(s) for +: '' @ [CHR 0x27] @ ''NoneType'' @ [CHR 0x27] @
     '' and '' @ [CHR 0x27] @ ''int'' @ [CHR 0x27]"

text \<open>
  \<^verbatim>\<open>construct_flume_wse\<close>, statement by statement. Nothing is stored in the object
  before the last two assignments, so an exception leaves the object as it was.
\<close>

definition construct_flume_wse :: "('a::zero) Run \<Rightarrow> 'a outcome" where
  "construct_flume_wse self =
     (case num_wave_gauges self of
        None \<Rightarrow> (Some (TypeError unsupported_operand), self)
      | Some g \<Rightarrow>
     (case num_times self of
        None \<Rightarrow> (Some (TypeError not_an_integer), self)
      | Some t \<Rightarrow>
     (case wave_maker self of
        None \<Rightarrow> (Some (AttributeError ''position''), self)
      | Some wm \<Rightarrow>
     (case set_column (np_zeros t (g + 1)) 0 (position wm) of
        Inl e \<Rightarrow> (Some e, self)
      | Inr x1 \<Rightarrow>
     (case wg_locations self of
        None \<Rightarrow> (Some (AttributeError ''wg_locations''), self)
      | Some locs \<Rightarrow>
     (case set_columns_from1_vec x1 (map fst locs) of
        Inl e \<Rightarrow> (Some e, self)
      | Inr x_location \<Rightarrow>
     (case set_column (np_zeros t (g + 1)) 0 (eta_wm wm) of
        Inl e \<Rightarrow> (Some e, self)
      | Inr w1 \<Rightarrow>
     (case wave_gauge_wse self of
        None \<Rightarrow> (Some (AttributeError ''wave_gauge_wse''), self)
      | Some wse \<Rightarrow>
     (case set_columns_from1_mat w1 wse of
        Inl e \<Rightarrow> (Some e, self)
      | Inr water_surface_elevation \<Rightarrow>
          (None, self\<lparr>flume_wse := Some water_surface_elevation,
                      flume_wse_locs := Some x_location\<rparr>))))))))))"

subsection \<open>Notions used in the statements\<close>

text \<open>
  The time axis that \<^verbatim>\<open>load_wave_data\<close> derives from the codes \<^verbatim>\<open>date\<close>, and the
  codes for which it exists: a non-empty array, every code of which shifted by the offset
  (in float64) is a day count in the range of \<^verbatim>\<open>datetime\<close>.
\<close>

definition time_axis :: "rat list \<Rightarrow> datetime list" where
  "time_axis mat_time =
     map (\<lambda>v. datetime_1_1_1 + microseconds_of_days (float64_add v time_offset)) mat_time"

definition valid_time_codes :: "rat list \<Rightarrow> bool" where
  "valid_time_codes mat_time =
     (mat_time \<noteq> [] \<and>
      list_all (\<lambda>v. in_datetime_range (float64_add v time_offset)) mat_time)"

text \<open>Column \<open>j\<close> of a two-dimensional array given by its rows.\<close>

definition column :: "nat \<Rightarrow> 'a list list \<Rightarrow> 'a list" where
  "column j rows = map (\<lambda>r. r ! j) rows"

text \<open>
  Example containers. The first has \<^verbatim>\<open>eta\<close> with one row for each of its three gauges
  and one column for each of its two times. The second has \<^verbatim>\<open>eta\<close> of shape
  \<open>T \<times> G\<close> with \<open>T = 3\<close> times and \<open>G = 2\<close> gauges. The third has \<^verbatim>\<open>eta\<close> of
  shape \<open>3 \<times> 1\<close> beside one time code and two gauge positions. The fourth has
  position arrays of lengths 3 and 2 and \<^verbatim>\<open>eta\<close> of shape \<open>1 \<times> 3\<close>.
\<close>

definition container_gauge_rows :: "int container" where
  "container_gauge_rows =
     \<lparr>c_date = [730000.5, 730000.75], c_eta = [[1, 2], [3, 4], [5, 6]],
      c_x = [10, 20, 30], c_y = [0, 0, 0], c_eta_wm = [7, 8], c_x_wm = [-1, -2]\<rparr>"

definition container_time_rows :: "int container" where
  "container_time_rows =
     \<lparr>c_date = [730000.5, 730000.75, 730001], c_eta = [[1, 2], [3, 4], [5, 6]],
      c_x = [10, 20], c_y = [0, 0], c_eta_wm = [7, 8, 9], c_x_wm = [-1, -2, -3]\<rparr>"

definition container_mismatched :: "int container" where
  "container_mismatched =
     \<lparr>c_date = [730000.5], c_eta = [[1], [2], [3]],
      c_x = [10, 20], c_y = [0, 0], c_eta_wm = [7], c_x_wm = [-1]\<rparr>"

definition container_unequal_xy :: "int container" where
  "container_unequal_xy =
     \<lparr>c_date = [730000.5], c_eta = [[1, 2, 3]],
      c_x = [10, 20, 30], c_y = [0, 0], c_eta_wm = [7], c_x_wm = [-1]\<rparr>"

definition run001 :: "int Run" where
  "run001 = Run_init ''RUN001'' ''waves.mat''"

text \<open>An array of shape \<open>t \<times> g\<close>: its rows are \<open>t\<close> lists of length \<open>g\<close>.\<close>

definition has_shape :: "nat \<Rightarrow> nat \<Rightarrow> 'a ndarray2 \<Rightarrow> bool" where
  "has_shape t g a =
     (nrows a = t \<and> ncols a = g \<and> length (rows_of a) = t \<and>
      list_all (\<lambda>r. length r = g) (rows_of a))"

text \<open>
  Example objects: the first container loaded into a new Run, the same with the gauge
  surface matrix built, and the same with the table of gauge locations built as well.
\<close>

definition run_loaded :: "int Run" where
  "run_loaded = snd (load_wave_data container_gauge_rows run001)"

definition run_wse_built :: "int Run" where
  "run_wse_built = snd (construct_wave_gauge_wse run_loaded)"

definition run_derived :: "int Run" where
  "run_derived = snd (get_wave_gauge_locations run_wse_built)"

text \<open>
  Further example objects: the example container with a wave maker of three samples, and
  with a wave maker of one sample, beside its two time codes, each loaded into a new Run
  with both the gauge surface matrix and the table of gauge locations built; and the
  example object with a fourth gauge added after the two were built.
\<close>

definition loaded_and_built :: "int container \<Rightarrow> int Run" where
  "loaded_and_built c =
     snd (get_wave_gauge_locations
            (snd (construct_wave_gauge_wse (snd (load_wave_data c run001)))))"

definition container_long_wave_maker :: "int container" where
  "container_long_wave_maker =
     container_gauge_rows\<lparr>c_eta_wm := [7, 8, 9], c_x_wm := [-1, -2, -3]\<rparr>"

definition container_short_wave_maker :: "int container" where
  "container_short_wave_maker = container_gauge_rows\<lparr>c_eta_wm := [7], c_x_wm := [-1]\<rparr>"

definition run_fourth_gauge :: "int Run" where
  "run_fourth_gauge =
     snd (add_wave_gauge
            (WaveGaugeObj \<lparr>wg_id = 4, wg_location = (40, 0), wg_eta = [7, 8],
                            wg_datetime = None\<rparr>)
            run_derived)"

section \<open>Properties\<close>

subsection \<open>Adding a wave maker and wave gauges\<close>

text \<open>
  Claim C6. Handed anything that is not a WaveMaker, \<^verbatim>\<open>add_wave_maker\<close> raises the
  TypeError whose message ends in the class of what it was handed, and the object is left
  as it was; in particular the wave maker stored before the call is still the stored one.
\<close>

theorem add_wave_maker_type_error:
  "\<not> isinstance_WaveMaker wm \<Longrightarrow>
     add_wave_maker wm self =
       (Some (TypeError (''Type must be WaveMaker. Input type is '' @ type_repr wm)), self)
     \<and> wave_maker (snd (add_wave_maker wm self)) = wave_maker self"
  by (cases wm) (simp_all add: add_wave_maker_def)

theorem add_wave_maker_type_error_witness:
  "\<not> isinstance_WaveMaker (IntObj 3 :: int pyobj) \<and>
   add_wave_maker (IntObj 3)
     ((Run_init ''RUN001'' ''waves.mat'')
        \<lparr>wave_maker := Some \<lparr>eta_wm = [1, 2], position = [3, 4 :: int], wm_datetime = None\<rparr>\<rparr>) =
     (Some (TypeError ''Type must be WaveMaker. Input type is <class 'int'>''),
      (Run_init ''RUN001'' ''waves.mat'')
        \<lparr>wave_maker := Some \<lparr>eta_wm = [1, 2], position = [3, 4], wm_datetime = None\<rparr>\<rparr>)"
  using add_wave_maker_type_error
    [of "IntObj 3 :: int pyobj"
        "(Run_init ''RUN001'' ''waves.mat'')
           \<lparr>wave_maker := Some \<lparr>eta_wm = [1, 2], position = [3, 4 :: int], wm_datetime = None\<rparr>\<rparr>"]
  by (simp add: type_repr_def)

text \<open>
  Claim C7, as the code has it. \<^verbatim>\<open>add_wave_gauge\<close> tests the class of its argument
  only: an argument that is neither a list nor a WaveGauge raises the TypeError naming its
  class and leaves the gauge list and the gauge count as they were, while a list is
  concatenated whatever its elements are.
\<close>

theorem add_wave_gauge_type_error:
  "(\<not> isinstance_list v \<and> \<not> isinstance_WaveGauge v \<longrightarrow>
      add_wave_gauge v self =
        (Some (TypeError (''The type must be a list or a WaveGauge object'' @ [CHR 0x0A] @
                          ''Input type is: '' @ type_repr v)), self))
   \<and> fst (add_wave_gauge (ListObj xs) self) = None
   \<and> wave_gauges (snd (add_wave_gauge (ListObj xs) self)) = wave_gauges self @ xs"
  by (cases v) (simp_all add: add_wave_gauge_def Let_def)

theorem add_wave_gauge_type_error_witness:
  "\<not> isinstance_list (StrObj ''gauge'' :: int pyobj) \<and>
   \<not> isinstance_WaveGauge (StrObj ''gauge'' :: int pyobj) \<and>
   add_wave_gauge (StrObj ''gauge'') (Run_init ''RUN001'' ''waves.mat'' :: int Run) =
     (Some (TypeError (''The type must be a list or a WaveGauge object'' @ [CHR 0x0A] @
                       ''Input type is: <class 'str'>'')),
      Run_init ''RUN001'' ''waves.mat'')"
  using add_wave_gauge_type_error
    [of "StrObj ''gauge'' :: int pyobj" "Run_init ''RUN001'' ''waves.mat''" "[]"]
  by (simp add: type_repr_def)

text \<open>
  The claim as it was stated fails on a list that holds something other than a WaveGauge:
  the list \<^verbatim>\<open>[7]\<close> is accepted, no exception is raised, and both the gauge list and the
  gauge count change.
\<close>

theorem add_wave_gauge_any_list_counterexample:
  "\<not> isinstance_WaveGauge (IntObj 7 :: int pyobj) \<and>
   add_wave_gauge (ListObj [IntObj 7]) (Run_init ''RUN001'' ''waves.mat'' :: int Run) =
     (None, (Run_init ''RUN001'' ''waves.mat'')
              \<lparr>wave_gauges := [IntObj 7], num_wave_gauges := Some 1\<rparr>)"
  by (simp add: add_wave_gauge_def Run_init_def)

text \<open>
  Claim C8. A list of \<open>k\<close> objects is appended to the gauge list in its order, a single
  WaveGauge is appended as one element; neither call raises. The stored count becomes the
  number of gauges there were plus \<open>k\<close> (plus 1), which is the length of the new gauge
  list; where the stored count \<open>n\<close> was the length of the gauge list before the call, it
  is \<open>n + k\<close> (\<open>n + 1\<close>) after it.
\<close>

theorem add_wave_gauge_appends:
  "add_wave_gauge (ListObj gs) self =
     (None, self\<lparr>wave_gauges := wave_gauges self @ gs,
                 num_wave_gauges := Some (length (wave_gauges self) + length gs)\<rparr>)
   \<and> add_wave_gauge (WaveGaugeObj g) self =
     (None, self\<lparr>wave_gauges := wave_gauges self @ [WaveGaugeObj g],
                 num_wave_gauges := Some (length (wave_gauges self) + 1)\<rparr>)
   \<and> num_wave_gauges (snd (add_wave_gauge (ListObj gs) self)) =
       Some (length (wave_gauges (snd (add_wave_gauge (ListObj gs) self))))
   \<and> num_wave_gauges (snd (add_wave_gauge (WaveGaugeObj g) self)) =
       Some (length (wave_gauges (snd (add_wave_gauge (WaveGaugeObj g) self))))
   \<and> (num_wave_gauges self = Some n \<and> n = length (wave_gauges self) \<longrightarrow>
        num_wave_gauges (snd (add_wave_gauge (ListObj gs) self)) = Some (n + length gs) \<and>
        num_wave_gauges (snd (add_wave_gauge (WaveGaugeObj g) self)) = Some (n + 1))"
  by (simp add: add_wave_gauge_def Let_def)

theorem add_wave_gauge_appends_witness:
  "num_wave_gauges
     ((Run_init ''RUN001'' ''waves.mat'')
        \<lparr>wave_gauges := [IntObj 0 :: int pyobj], num_wave_gauges := Some 1\<rparr>) = Some 1
   \<and> 1 = length (wave_gauges
        ((Run_init ''RUN001'' ''waves.mat'')
           \<lparr>wave_gauges := [IntObj 0 :: int pyobj], num_wave_gauges := Some 1\<rparr>))
   \<and> add_wave_gauge
       (ListObj [WaveGaugeObj \<lparr>wg_id = 1, wg_location = (10, 0), wg_eta = [1, 2],
                                wg_datetime = None\<rparr>,
                 WaveGaugeObj \<lparr>wg_id = 2, wg_location = (20, 0), wg_eta = [3, 4],
                                wg_datetime = None\<rparr>])
       ((Run_init ''RUN001'' ''waves.mat'')
          \<lparr>wave_gauges := [IntObj 0 :: int pyobj], num_wave_gauges := Some 1\<rparr>) =
     (None,
      (Run_init ''RUN001'' ''waves.mat'')
        \<lparr>wave_gauges :=
           [IntObj 0,
            WaveGaugeObj \<lparr>wg_id = 1, wg_location = (10, 0), wg_eta = [1, 2],
                           wg_datetime = None\<rparr>,
            WaveGaugeObj \<lparr>wg_id = 2, wg_location = (20, 0), wg_eta = [3, 4],
                           wg_datetime = None\<rparr>],
         num_wave_gauges := Some 3\<rparr>)"
  using add_wave_gauge_appends
    [of "[WaveGaugeObj \<lparr>wg_id = 1, wg_location = (10, 0), wg_eta = [1, 2],
                         wg_datetime = None\<rparr>,
          WaveGaugeObj \<lparr>wg_id = 2, wg_location = (20, 0), wg_eta = [3, 4],
                         wg_datetime = None\<rparr>]"
        "(Run_init ''RUN001'' ''waves.mat'')
           \<lparr>wave_gauges := [IntObj 0 :: int pyobj], num_wave_gauges := Some 1\<rparr>"
        "\<lparr>wg_id = 1, wg_location = (10, 0), wg_eta = [1, 2], wg_datetime = None\<rparr>" 1]
  by (simp add: Run_init_def)

subsection \<open>Time conversion\<close>

text \<open>
  A day count in range becomes its timedelta, and the timestamp exists; a day count out of
  range ends in OverflowError, in \<^verbatim>\<open>timedelta\<close> or in the addition.
\<close>

lemma timedelta_days_in_range:
  assumes "in_datetime_range t"
  shows "timedelta_days t = Inr (microseconds_of_days t)"
proof -
  let ?us = "microseconds_of_days t"
  from assms have lo: "0 \<le> ?us" and hi: "?us < 3652059 * 86400000000"
    and finite: "\<not> max_float64 < \<bar>t\<bar>"
    by (simp_all add: in_datetime_range_def max_ordinal_def us_per_day_def)
  from lo have "0 \<le> ?us div 86400000000"
    by linarith
  moreover from hi have "?us div 86400000000 < 3652059"
    by linarith
  ultimately show ?thesis
    using finite by (simp add: timedelta_days_def Let_def us_per_day_def)
qed

lemma datetime_add_in_range:
  "in_datetime_range t \<Longrightarrow>
     datetime_add datetime_1_1_1 (microseconds_of_days t) = Inr (microseconds_of_days t)"
  by (simp add: datetime_add_def datetime_1_1_1_def in_datetime_range_def Let_def)

lemma timedelta_days_out_of_range:
  "\<not> in_datetime_range t \<Longrightarrow>
     timedelta_days t = Inl OverflowError \<or>
     (timedelta_days t = Inr (microseconds_of_days t) \<and>
      datetime_add datetime_1_1_1 (microseconds_of_days t) = Inl OverflowError)"
  by (auto simp add: timedelta_days_def datetime_add_def datetime_1_1_1_def
      in_datetime_range_def Let_def)

lemma experiment_datetime_loop_in_range:
  "list_all in_datetime_range ts \<Longrightarrow>
     experiment_datetime_loop ts acc = Inr (acc @ map microseconds_of_days ts)"
proof (induction ts arbitrary: acc)
  case Nil
  show ?case by simp
next
  case (Cons t ts)
  then have t: "in_datetime_range t" and rest: "list_all in_datetime_range ts"
    by simp_all
  show ?case
    by (simp add: timedelta_days_in_range [OF t] datetime_add_in_range [OF t] Cons.IH [OF rest])
qed

lemma experiment_datetime_loop_out_of_range:
  "\<not> list_all in_datetime_range ts \<Longrightarrow> experiment_datetime_loop ts acc = Inl OverflowError"
proof (induction ts arbitrary: acc)
  case Nil
  then show ?case by simp
next
  case (Cons t ts)
  show ?case
  proof (cases "in_datetime_range t")
    case True
    with Cons.prems have "\<not> list_all in_datetime_range ts" by simp
    then show ?thesis
      by (simp add: timedelta_days_in_range [OF True] datetime_add_in_range [OF True] Cons.IH)
  next
    case False
    from timedelta_days_out_of_range [OF False] show ?thesis
      by auto
  qed
qed

text \<open>
  The example codes, evaluated. The float64 nearest to 732419.5213207201 is
  \<open>6291435782048935 / 2\<^sup>3\<^sup>3\<close>: the exact product of the fractional day of its shifted
  value and 86400000000 ends in \<open>110215.4999971\<close>, the float64 product ends in
  \<open>110215.5\<close>, and the tie goes to the even microsecond.
\<close>

lemmas float64_eval_defs =
  float64_add_def fl64_def ulp64_def pow2_def floor_log2_def round_half_even_def
  modf_intpart_def microseconds_of_days_def max_float64_def us_per_day_def
  ilog2.simps Let_def

lemma floor_rat_divide_numeral:
  "\<lfloor>numeral a / numeral b :: rat\<rfloor> = numeral a div numeral b"
  by (metis floor_divide_of_int_eq of_int_numeral)

lemma floor_rat_minus_divide_numeral:
  "\<lfloor>- (numeral a / numeral b) :: rat\<rfloor> = - numeral a div numeral b"
  by (metis divide_minus_left floor_divide_of_int_eq of_int_neg_numeral of_int_numeral)

lemma ceiling_rat_divide_numeral:
  "\<lceil>numeral a / numeral b :: rat\<rceil> = - (- numeral a div numeral b)"
  by (metis ceiling_def floor_rat_minus_divide_numeral)

lemma ceiling_rat_one_divide_numeral:
  "\<lceil>1 / numeral b :: rat\<rceil> = - (- 1 div numeral b)"
  by (metis ceiling_def divide_minus_left floor_divide_of_int_eq of_int_1 of_int_minus
      of_int_numeral)

lemmas rat_floor_numeral =
  floor_rat_divide_numeral floor_rat_minus_divide_numeral ceiling_rat_divide_numeral
  ceiling_rat_one_divide_numeral

lemma example_microseconds:
  "microseconds_of_days (float64_add 730000.5 time_offset) = 63040334400000000"
  "microseconds_of_days (float64_add 730000.25 time_offset) = 63040312800000000"
  "microseconds_of_days (float64_add 730000.75 time_offset) = 63040356000000000"
  "microseconds_of_days (float64_add 730001 time_offset) = 63040377600000000"
  "microseconds_of_days (float64_add (6291435782048935 / 8589934592) time_offset) =
     63249337842110216"
  "microseconds_of_days (float64_add 0 time_offset) = - 31708800000000"
  by (simp_all add: time_offset_def float64_eval_defs rat_floor_numeral)

lemma example_finite:
  "\<bar>float64_add 730000.5 time_offset\<bar> \<le> max_float64"
  "\<bar>float64_add 730000.25 time_offset\<bar> \<le> max_float64"
  "\<bar>float64_add 730000.75 time_offset\<bar> \<le> max_float64"
  "\<bar>float64_add 730001 time_offset\<bar> \<le> max_float64"
  "\<bar>float64_add (6291435782048935 / 8589934592) time_offset\<bar> \<le> max_float64"
  "\<bar>float64_add 0 time_offset\<bar> \<le> max_float64"
  by (simp_all add: time_offset_def float64_eval_defs rat_floor_numeral)

lemma example_in_range:
  "in_datetime_range (float64_add 730000.5 time_offset)"
  "in_datetime_range (float64_add 730000.25 time_offset)"
  "in_datetime_range (float64_add 730000.75 time_offset)"
  "in_datetime_range (float64_add 730001 time_offset)"
  "in_datetime_range (float64_add (6291435782048935 / 8589934592) time_offset)"
  using example_microseconds example_finite
  by (simp_all add: in_datetime_range_def us_per_day_def max_ordinal_def)

lemma example_timedelta:
  "timedelta_days (float64_add 730000.5 time_offset) = Inr 63040334400000000"
  "timedelta_days (float64_add 730000.25 time_offset) = Inr 63040312800000000"
  "timedelta_days (float64_add 730000.75 time_offset) = Inr 63040356000000000"
  "timedelta_days (float64_add 730001 time_offset) = Inr 63040377600000000"
  "timedelta_days (float64_add (6291435782048935 / 8589934592) time_offset) =
     Inr 63249337842110216"
  using example_in_range [THEN timedelta_days_in_range] example_microseconds
  by simp_all

lemma example_timedelta_0:
  "timedelta_days (float64_add 0 time_offset) = Inr (- 31708800000000)"
proof -
  from example_finite(6) have "\<not> max_float64 < \<bar>float64_add 0 time_offset\<bar>"
    by (simp only: not_less)
  then show ?thesis
    by (simp add: timedelta_days_def example_microseconds(6) us_per_day_def)
qed

lemmas example_codes =
  example_microseconds example_in_range example_timedelta example_timedelta_0

text \<open>
  The rounding of \<^verbatim>\<open>timedelta\<close>. \<open>ilog2\<close> and \<open>floor_log2\<close> are the whole part
  of the binary logarithm; rounding to float64 moves a number by at most half a unit in
  the last place; so the microseconds of a day count \<open>t\<close> differ from
  \<open>t \<times> 86400000000\<close> by less than one. Subtracting 367 from a float64 between 367 and
  \<open>2\<^sup>5\<^sup>3\<close> is exact, the difference being a multiple of the unit in the last place of the
  minuend and not above it.
\<close>

lemma round_half_even_error: "\<bar>of_int (round_half_even q) - q\<bar> \<le> 1 / 2"
proof -
  have "of_int \<lfloor>q\<rfloor> \<le> q" and "q < of_int \<lfloor>q\<rfloor> + 1"
    by linarith+
  then show ?thesis
    by (auto simp add: round_half_even_def Let_def)
qed

lemma round_half_even_of_int: "round_half_even (of_int k) = k"
  by (simp add: round_half_even_def)

lemma ilog2_le: "n < 2 ^ Suc k \<Longrightarrow> ilog2 n \<le> k"
proof (induction k arbitrary: n)
  case 0
  then show ?case by (simp add: ilog2.simps)
next
  case (Suc k)
  show ?case
  proof (cases "n < 2")
    case True
    then show ?thesis by (simp add: ilog2.simps)
  next
    case False
    from Suc.prems have "n div 2 < 2 ^ Suc k" by simp
    from Suc.IH [OF this] False show ?thesis
      by (subst ilog2.simps) simp
  qed
qed

lemma ilog2_ge: "2 ^ k \<le> n \<Longrightarrow> k \<le> ilog2 n"
proof (induction k arbitrary: n)
  case 0
  then show ?case by simp
next
  case (Suc k)
  then have "\<not> n < 2" and "2 ^ k \<le> n div 2"
    by (auto simp add: le_div_geq not_less intro: order_trans [of 2 "2 * 2 ^ k"])
  with Suc.IH [of "n div 2"] show ?case
    by (subst ilog2.simps) simp
qed

lemma ilog2_lower: "1 \<le> n \<Longrightarrow> 2 ^ ilog2 n \<le> n"
proof (induction n rule: ilog2.induct)
  case (1 n)
  show ?case
  proof (cases "n < 2")
    case True
    with "1.prems" show ?thesis by (simp add: ilog2.simps)
  next
    case False
    then have "1 \<le> n div 2" by simp
    with "1.IH" False have "2 ^ ilog2 (n div 2) \<le> n div 2" by simp
    then have "2 * 2 ^ ilog2 (n div 2) \<le> n" by simp
    with False show ?thesis
      by (subst ilog2.simps) simp
  qed
qed

lemma ilog2_mono: "m \<le> n \<Longrightarrow> ilog2 m \<le> ilog2 n"
proof (cases "1 \<le> m")
  case True
  assume "m \<le> n"
  with ilog2_lower [OF True] have "2 ^ ilog2 m \<le> n" by simp
  then show ?thesis by (rule ilog2_ge)
next
  case False
  then show ?thesis by (simp add: ilog2.simps)
qed

lemma pow2_power_int: "pow2 e = power_int 2 e"
  by (simp add: pow2_def power_int_def power_one_over)

lemma pow2_pos: "0 < pow2 e"
  by (simp add: pow2_power_int)

lemma pow2_mono: "a \<le> b \<Longrightarrow> pow2 a \<le> pow2 b"
  by (simp add: pow2_power_int power_int_increasing)

lemma floor_log2_le: "x < 2 ^ Suc k \<Longrightarrow> floor_log2 x \<le> int k"
proof (cases "1 \<le> x")
  case True
  assume "x < 2 ^ Suc k"
  then have "\<lfloor>x\<rfloor> < 2 ^ Suc k"
    by (simp add: floor_less_iff)
  with True have "nat \<lfloor>x\<rfloor> < 2 ^ Suc k"
    by (simp add: nat_less_iff)
  from ilog2_le [OF this] True show ?thesis
    by (simp add: floor_log2_def)
next
  case False
  then show ?thesis by (simp add: floor_log2_def)
qed

lemma floor_log2_ge: "2 ^ k \<le> x \<Longrightarrow> int k \<le> floor_log2 x"
proof -
  assume x: "2 ^ k \<le> x"
  have "(1::rat) \<le> 2 ^ k" by simp
  with x have one: "1 \<le> x" by linarith
  from x have "(2::int) ^ k \<le> \<lfloor>x\<rfloor>"
    by (simp add: le_floor_iff)
  then have "2 ^ k \<le> nat \<lfloor>x\<rfloor>"
    by (simp add: le_nat_iff)
  from ilog2_ge [OF this] one show ?thesis
    by (simp add: floor_log2_def)
qed

lemma floor_log2_mono: "0 < x \<Longrightarrow> x \<le> y \<Longrightarrow> 1 \<le> y \<Longrightarrow> floor_log2 x \<le> floor_log2 y"
proof (cases "1 \<le> x")
  case True
  assume "x \<le> y"
  then have "nat \<lfloor>x\<rfloor> \<le> nat \<lfloor>y\<rfloor>"
    by (simp add: floor_mono nat_mono)
  from ilog2_mono [OF this] True \<open>x \<le> y\<close> show ?thesis
    by (simp add: floor_log2_def)
next
  case False
  assume "1 \<le> y"
  with False show ?thesis by (simp add: floor_log2_def)
qed


lemma fl64_error:
  assumes "\<bar>x\<bar> < 2 ^ Suc k"
  shows "\<bar>fl64 x - x\<bar> \<le> pow2 (max (int k - 52) (- 1074)) / 2"
proof (cases "x = 0")
  case True
  with pow2_pos [of "max (int k - 52) (- 1074)"] show ?thesis
    by (simp add: fl64_def)
next
  case False
  let ?u = "ulp64 x"
  have u: "0 < ?u"
    by (simp add: ulp64_def pow2_pos)
  from floor_log2_le [OF assms] have "?u \<le> pow2 (max (int k - 52) (- 1074))"
    unfolding ulp64_def by (intro pow2_mono) simp
  moreover have "\<bar>fl64 x - x\<bar> \<le> ?u / 2"
  proof -
    have "fl64 x - x = (of_int (round_half_even (x / ?u)) - x / ?u) * ?u"
      using False u by (simp add: fl64_def field_simps)
    then have "\<bar>fl64 x - x\<bar> = \<bar>of_int (round_half_even (x / ?u)) - x / ?u\<bar> * ?u"
      using u by (simp add: abs_mult)
    also have "\<dots> \<le> 1 / 2 * ?u"
      using u round_half_even_error [of "x / ?u"] by (intro mult_right_mono) simp_all
    finally show ?thesis by simp
  qed
  ultimately show ?thesis by linarith
qed

lemma fl64_error_fractional_day:
  assumes "\<bar>y\<bar> < 86400000000"
  shows "\<bar>fl64 y - y\<bar> \<le> 1 / 131072"
proof -
  from assms have "\<bar>y\<bar> < 2 ^ Suc 36" by simp
  from fl64_error [OF this] show ?thesis
    by (simp add: pow2_def)
qed

lemma modf_fracpart_less_1: "\<bar>t - of_int (modf_intpart t)\<bar> < 1"
proof (cases "0 \<le> t")
  case True
  then have m: "modf_intpart t = \<lfloor>t\<rfloor>"
    by (simp add: modf_intpart_def)
  show ?thesis
    unfolding m by linarith
next
  case False
  then have m: "modf_intpart t = - \<lfloor>- t\<rfloor>"
    by (simp add: modf_intpart_def)
  show ?thesis
    unfolding m of_int_minus by linarith
qed

lemma microseconds_of_days_error:
  "\<bar>of_int (microseconds_of_days t) - t * 86400000000\<bar> < 1"
proof -
  let ?ip = "modf_intpart t"
  let ?y = "86400000000 * (t - of_int ?ip)"
  from modf_fracpart_less_1 [of t] have "\<bar>?y\<bar> < 86400000000"
    by (simp add: abs_mult)
  from fl64_error_fractional_day [OF this] have y: "\<bar>fl64 ?y - ?y\<bar> \<le> 1 / 131072" .
  have us: "microseconds_of_days t = round_half_even (of_int (?ip * 86400000000) + fl64 ?y)"
    by (simp add: microseconds_of_days_def us_per_day_def)
  from round_half_even_error [of "of_int (?ip * 86400000000) + fl64 ?y"]
  have "\<bar>of_int (microseconds_of_days t) - (of_int (?ip * 86400000000) + fl64 ?y)\<bar> \<le> 1 / 2"
    by (simp only: us)
  moreover have "t * 86400000000 = of_int (?ip * 86400000000) + ?y"
    by (simp add: algebra_simps)
  ultimately show ?thesis
    using y by linarith
qed


lemma pow2_split: "b \<le> a \<Longrightarrow> pow2 a = pow2 b * 2 ^ nat (a - b)"
proof -
  assume "b \<le> a"
  have "power_int (2::rat) (b + (a - b)) = power_int 2 b * power_int 2 (a - b)"
    by (rule power_int_add) simp
  moreover from \<open>b \<le> a\<close> have "power_int (2::rat) (a - b) = 2 ^ nat (a - b)"
    by (simp add: power_int_def)
  ultimately show ?thesis
    by (simp add: pow2_power_int)
qed

lemma fl64_multiple_of_ulp:
  assumes "x = of_int k * ulp64 x"
  shows "fl64 x = x"
proof (cases "x = 0")
  case True
  then show ?thesis by (simp add: fl64_def)
next
  case False
  have "0 < ulp64 x"
    by (simp add: ulp64_def pow2_pos)
  with assms have "x / ulp64 x = of_int k"
    by (simp add: field_simps)
  with False assms show ?thesis
    by (simp add: fl64_def round_half_even_of_int)
qed

lemma float64_sub_exact:
  assumes float: "fl64 v = v" and lo: "367 \<le> v" and hi: "v < 2 ^ 53"
  shows "fl64 (v - 367) = v - 367"
proof (cases "v - 367 = 0")
  case True
  then show ?thesis by (simp add: fl64_def)
next
  case False
  let ?z = "v - 367"
  from lo False have z: "0 < ?z" and v: "0 < v" "1 \<le> v" "\<bar>v\<bar> = v" "\<bar>?z\<bar> = ?z" "v \<noteq> 0"
    by simp_all
  define ev where "ev = floor_log2 v - 52"
  from lo have "(2::rat) ^ 8 \<le> v" by simp
  from floor_log2_ge [OF this] have ev_lo: "- 44 \<le> ev"
    by (simp add: ev_def)
  from hi have "v < 2 ^ Suc 52" by simp
  from floor_log2_le [OF this] have ev_hi: "ev \<le> 0"
    by (simp add: ev_def)
  from ev_lo have ulp_v: "ulp64 v = pow2 ev"
    by (simp add: ulp64_def v ev_def)
  define m where "m = round_half_even (v / pow2 ev)"
  from float v have vm: "v = of_int m * pow2 ev"
    by (simp add: fl64_def ulp_v m_def)
  from ev_hi have unit: "pow2 ev * 2 ^ nat (- ev) = 1"
    using pow2_split [of ev 0] by (simp add: pow2_def)
  define k where "k = m - 367 * 2 ^ nat (- ev)"
  have "of_int k * pow2 ev = of_int m * pow2 ev - 367 * (pow2 ev * 2 ^ nat (- ev))"
    by (simp add: k_def algebra_simps)
  with vm unit have zk: "?z = of_int k * pow2 ev"
    by simp
  define ez where "ez = max (floor_log2 ?z - 52) (- 1074)"
  have ulp_z: "ulp64 ?z = pow2 ez"
    by (simp add: ulp64_def v ez_def)
  from floor_log2_mono [OF z _ v(2)] ev_lo have "ez \<le> ev"
    by (simp add: ez_def ev_def)
  from pow2_split [OF this] have split: "pow2 ev = pow2 ez * 2 ^ nat (ev - ez)" .
  have "?z = of_int k * (pow2 ez * 2 ^ nat (ev - ez))"
    using zk by (simp only: split)
  also have "\<dots> = of_int (k * 2 ^ nat (ev - ez)) * pow2 ez"
    by simp
  finally have r: "?z = of_int (k * 2 ^ nat (ev - ez)) * pow2 ez" .
  have "?z = of_int (k * 2 ^ nat (ev - ez)) * ulp64 ?z"
    unfolding ulp_z by (rule r)
  then show ?thesis
    by (rule fl64_multiple_of_ulp)
qed

lemma float64_add_time_offset_exact:
  assumes "fl64 v = v" and "367 \<le> v" and "v < 2 ^ 53"
  shows "float64_add v time_offset = v + time_offset"
  using float64_sub_exact [OF assms]
  by (simp add: float64_add_def time_offset_def)


lemma timestamp_within_microsecond:
  assumes "fl64 v = v" and "367 \<le> v" and "v < 2 ^ 53"
  shows "\<bar>of_int (datetime_1_1_1 + microseconds_of_days (float64_add v time_offset)) -
          (v + time_offset) * 86400000000\<bar> < 1"
  using microseconds_of_days_error [of "v + time_offset"]
  by (simp add: float64_add_time_offset_exact [OF assms] datetime_1_1_1_def)

text \<open>
  Claim C2, as the code has it. For a non-empty array of time codes, for every one of which
  the timestamp \<^verbatim>\<open>datetime(1, 1, 1) + timedelta(days = v + offset)\<close> exists (it lies
  between 0001-01-01 and the end of 9999-12-31), the conversion returns and stores one
  timestamp for each code, in the order of the codes: the timestamp for the code \<open>v\<close> is
  \<^verbatim>\<open>datetime(1, 1, 1) + timedelta(days = v + offset)\<close> as Python computes it, the sum
  in float64 and the day count rounded to a whole microsecond. For a float64 code from 367
  to below \<open>2\<^sup>5\<^sup>3\<close> this timestamp is less than one microsecond away from
  \<open>v + offset\<close> days after \<^verbatim>\<open>datetime(1, 1, 1)\<close>. The start date is the date of the
  first timestamp, the number of times the length of the array, and the offset that
  \<^verbatim>\<open>load_wave_data\<close> passes is \<open>-(365 + 2)\<close>.
\<close>

theorem convert_mat_time_in_range:
  assumes "mat_time \<noteq> []"
    and "list_all (\<lambda>v. in_datetime_range (float64_add v time_offset)) mat_time"
  shows "convert_mat_time_and_store time_offset mat_time self =
           (None, self\<lparr>datetime :=
                         Some (map (\<lambda>v. datetime_1_1_1 +
                                         microseconds_of_days (float64_add v time_offset))
                                 mat_time),
                       start_date :=
                         Some (date_of (datetime_1_1_1 +
                                 microseconds_of_days (float64_add (hd mat_time) time_offset))),
                       num_times := Some (length mat_time)\<rparr>)
         \<and> time_offset = - (365 + 2)
         \<and> list_all
             (\<lambda>v. fl64 v = v \<and> 367 \<le> v \<and> v < 2 ^ 53 \<longrightarrow>
                  \<bar>of_int (datetime_1_1_1 + microseconds_of_days (float64_add v time_offset)) -
                   (v + time_offset) * 86400000000\<bar> < 1)
             mat_time"
proof -
  let ?shifted = "map (\<lambda>t. float64_add t time_offset) mat_time"
  from assms(2) have "list_all in_datetime_range ?shifted"
    by (simp add: list_all_iff)
  then have loop: "experiment_datetime_loop ?shifted [] = Inr (map microseconds_of_days ?shifted)"
    by (simp add: experiment_datetime_loop_in_range)
  from assms(1) obtain v vs where mt: "mat_time = v # vs"
    by (cases mat_time) auto
  have offset: "time_offset = - (365 + 2)"
    by (simp add: time_offset_def)
  have stored: "convert_mat_time_and_store time_offset mat_time self =
           (None, self\<lparr>datetime :=
                         Some (map (\<lambda>v. datetime_1_1_1 +
                                         microseconds_of_days (float64_add v time_offset))
                                 mat_time),
                       start_date :=
                         Some (date_of (datetime_1_1_1 +
                                 microseconds_of_days (float64_add (hd mat_time) time_offset))),
                       num_times := Some (length mat_time)\<rparr>)"
    unfolding convert_mat_time_and_store_def Let_def loop
    by (simp add: mt datetime_1_1_1_def comp_def)
  have near: "list_all
             (\<lambda>v. fl64 v = v \<and> 367 \<le> v \<and> v < 2 ^ 53 \<longrightarrow>
                  \<bar>of_int (datetime_1_1_1 + microseconds_of_days (float64_add v time_offset)) -
                   (v + time_offset) * 86400000000\<bar> < 1)
             mat_time"
    unfolding list_all_iff by (blast intro: timestamp_within_microsecond)
  from stored offset near show ?thesis
    by (intro conjI)
qed

theorem convert_mat_time_in_range_witness:
  "[730000.5, 6291435782048935 / 8589934592, 730000.25 :: rat] \<noteq> [] \<and>
   list_all (\<lambda>v. in_datetime_range (float64_add v time_offset))
     [730000.5, 6291435782048935 / 8589934592, 730000.25] \<and>
   convert_mat_time_and_store time_offset
       [730000.5, 6291435782048935 / 8589934592, 730000.25]
       (Run_init ''RUN001'' ''waves.mat'' :: int Run) =
     (None, (Run_init ''RUN001'' ''waves.mat'')
              \<lparr>datetime :=
                 Some [63040334400000000, 63249337842110216, 63040312800000000],
               start_date := Some 729633, num_times := Some 3\<rparr>) \<and>
   fl64 (6291435782048935 / 8589934592) = 6291435782048935 / 8589934592 \<and>
   (367 :: rat) \<le> 6291435782048935 / 8589934592 \<and>
   (6291435782048935 / 8589934592 :: rat) < 2 ^ 53 \<and>
   \<bar>of_int (63249337842110216 :: int) -
     (6291435782048935 / 8589934592 + time_offset) * 86400000000\<bar> < (1 :: rat)"
proof -
  have range: "list_all (\<lambda>v. in_datetime_range (float64_add v time_offset))
     [730000.5, 6291435782048935 / 8589934592, 730000.25]"
    using example_in_range by simp
  have float: "fl64 (6291435782048935 / 8589934592) = 6291435782048935 / 8589934592"
    by (simp add: float64_eval_defs rat_floor_numeral)
  from convert_mat_time_in_range
    [of "[730000.5, 6291435782048935 / 8589934592, 730000.25]"
        "Run_init ''RUN001'' ''waves.mat'' :: int Run", OF _ range]
    range example_microseconds float
  show ?thesis
    by (simp add: datetime_1_1_1_def date_of_def us_per_day_def)
qed

text \<open>
  The claim as it was stated fails for a code whose shifted day count lies before
  0001-01-01: for the array \<^verbatim>\<open>[0.0]\<close> the sum \<^verbatim>\<open>datetime(1, 1, 1) + timedelta(days = -367.0)\<close>
  raises OverflowError, and nothing is stored.
\<close>

theorem convert_mat_time_before_year_1_counterexample:
  "convert_mat_time_and_store time_offset [0] (Run_init ''RUN001'' ''waves.mat'' :: int Run) =
     (Some OverflowError, Run_init ''RUN001'' ''waves.mat'')"
  using example_timedelta_0
  by (simp add: convert_mat_time_and_store_def datetime_add_def datetime_1_1_1_def
      max_ordinal_def us_per_day_def)

text \<open>
  Claim C3, as the code has it. For an empty array of time codes the conversion stores the
  empty list of timestamps and then fails where the start date is derived, in
  \<^verbatim>\<open>self.datetime[0]\<close>, with the IndexError of an index out of range; the start date and
  the number of times are not assigned.
\<close>

theorem convert_mat_time_empty:
  "convert_mat_time_and_store offset [] self = (Some IndexError, self\<lparr>datetime := Some []\<rparr>)"
  by (simp add: convert_mat_time_and_store_def)

text \<open>
  The claim as it was stated fails: the exception raised for the empty array is IndexError,
  the index-out-of-range error that the claim excludes.
\<close>

theorem convert_mat_time_empty_counterexample:
  "fst (convert_mat_time_and_store time_offset [] (Run_init ''RUN001'' ''waves.mat'' :: int Run)) =
     Some IndexError
   \<and> datetime (snd (convert_mat_time_and_store time_offset []
                     (Run_init ''RUN001'' ''waves.mat'' :: int Run))) = Some []
   \<and> start_date (snd (convert_mat_time_and_store time_offset []
                     (Run_init ''RUN001'' ''waves.mat'' :: int Run))) = None"
  by (simp add: convert_mat_time_and_store_def Run_init_def)

subsection \<open>Loading and the construction of the wave gauges\<close>

text \<open>
  The loop over the zipped locations returns one gauge for each pair when \<^verbatim>\<open>eta\<close> has a
  row for each of them, and ends in IndexError at the first pair without a row.
\<close>

lemma wave_gauge_loop_enough_rows:
  "i + length locs \<le> length eta \<Longrightarrow>
     wave_gauge_loop i locs eta dts acc =
       Inr (acc @ map (\<lambda>k. WaveGaugeObj \<lparr>wg_id = i + k + 1, wg_location = locs ! k,
                                          wg_eta = eta ! (i + k), wg_datetime = dts\<rparr>)
                    [0..<length locs])"
proof (induction locs arbitrary: i acc)
  case Nil
  show ?case by simp
next
  case (Cons loc locs)
  from Cons.prems have i: "i < length eta" and rest: "Suc i + length locs \<le> length eta"
    by simp_all
  show ?case
    using i Cons.IH [OF rest]
    by (simp add: map_upt_Suc del: upt_Suc)
qed

lemma wave_gauge_loop_too_few_rows:
  "i \<le> length eta \<Longrightarrow> length eta < i + length locs \<Longrightarrow>
     wave_gauge_loop i locs eta dts acc = Inl IndexError"
proof (induction locs arbitrary: i acc)
  case Nil
  then show ?case by simp
next
  case (Cons loc locs)
  show ?case
  proof (cases "i < length eta")
    case True
    with Cons.prems have "Suc i \<le> length eta" "length eta < Suc i + length locs"
      by simp_all
    then show ?thesis using True by (simp add: Cons.IH)
  next
    case False
    then show ?thesis by simp
  qed
qed

lemma convert_valid_time_codes:
  assumes "valid_time_codes mat_time"
  shows "convert_mat_time_and_store time_offset mat_time self =
           (None, self\<lparr>datetime := Some (time_axis mat_time),
                       start_date := Some (date_of (hd (time_axis mat_time))),
                       num_times := Some (length mat_time)\<rparr>)"
proof -
  let ?shifted = "map (\<lambda>t. float64_add t time_offset) mat_time"
  from assms have "list_all in_datetime_range ?shifted"
    by (simp add: valid_time_codes_def list_all_iff)
  then have loop: "experiment_datetime_loop ?shifted [] = Inr (map microseconds_of_days ?shifted)"
    by (simp add: experiment_datetime_loop_in_range)
  from assms obtain v vs where mt: "mat_time = v # vs"
    by (cases mat_time) (auto simp add: valid_time_codes_def)
  show ?thesis
    unfolding convert_mat_time_and_store_def Let_def loop
    by (simp add: mt datetime_1_1_1_def time_axis_def comp_def)
qed

lemma load_wave_data_valid_time_codes:
  assumes "valid_time_codes (c_date c)"
  shows "load_wave_data c self =
           construct_wave_gauges (c_x c) (c_y c) (c_eta c)
             (self\<lparr>datetime := Some (time_axis (c_date c)),
                   start_date := Some (date_of (hd (time_axis (c_date c)))),
                   num_times := Some (length (c_date c)),
                   wave_maker := Some \<lparr>eta_wm = c_eta_wm c, position = c_x_wm c,
                                        wm_datetime = Some (time_axis (c_date c))\<rparr>\<rparr>)"
  by (simp add: load_wave_data_def convert_valid_time_codes [OF assms] construct_wave_maker_def)

lemma construct_wave_gauges_enough_rows:
  assumes "min (length x_loc) (length y_loc) \<le> length eta"
  shows "construct_wave_gauges x_loc y_loc eta self =
        (None,
         self\<lparr>wave_gauges :=
                wave_gauges self @
                map (\<lambda>k. WaveGaugeObj \<lparr>wg_id = k + 1, wg_location = (x_loc ! k, y_loc ! k),
                                        wg_eta = eta ! k, wg_datetime = datetime self\<rparr>)
                  [0..<min (length x_loc) (length y_loc)],
              num_wave_gauges :=
                Some (length (wave_gauges self) + min (length x_loc) (length y_loc))\<rparr>)"
proof -
  from assms have "0 + length (zip x_loc y_loc) \<le> length eta" by simp
  from wave_gauge_loop_enough_rows [OF this, of "datetime self" "[]"]
  show ?thesis
    by (simp add: construct_wave_gauges_def add_wave_gauge_def Let_def cong: map_cong)
qed

lemma construct_wave_gauges_too_few_rows:
  assumes "length eta < min (length x_loc) (length y_loc)"
  shows "construct_wave_gauges x_loc y_loc eta self = (Some IndexError, self)"
proof -
  from assms have "length eta < 0 + length (zip x_loc y_loc)" by simp
  from wave_gauge_loop_too_few_rows [OF _ this]
  show ?thesis
    by (simp add: construct_wave_gauges_def)
qed

lemmas time_eval_defs =
  valid_time_codes_def time_axis_def datetime_1_1_1_def date_of_def us_per_day_def
  max_ordinal_def

lemmas load_eval_defs =
  load_wave_data_def convert_mat_time_and_store_def datetime_add_def
  construct_wave_maker_def construct_wave_gauges_def add_wave_gauge_def run001_def
  Run_init_def

text \<open>
  Claim C1, as the code has it. \<^verbatim>\<open>eta[id]\<close> indexes the first axis, so gauge \<open>i\<close>
  takes row \<open>i\<close> of \<^verbatim>\<open>eta\<close>. For every container whose time codes convert and whose
  \<^verbatim>\<open>eta\<close> has a row for each zipped pair of positions, loading returns, and the gauge
  constructed for \<open>i\<close> (from 0 to the number of pairs less one, appended after the gauges
  the object already had) has identifier \<open>i + 1\<close>, the location \<open>(x[i], y[i])\<close>, the
  time axis stored in the object, and the elevation series \<^verbatim>\<open>eta[i]\<close>.
\<close>

theorem load_wave_data_gauges:
  assumes "valid_time_codes (c_date c)"
    and "min (length (c_x c)) (length (c_y c)) \<le> length (c_eta c)"
  shows "fst (load_wave_data c self) = None
       \<and> datetime (snd (load_wave_data c self)) = Some (time_axis (c_date c))
       \<and> wave_gauges (snd (load_wave_data c self)) =
           wave_gauges self @
           map (\<lambda>k. WaveGaugeObj \<lparr>wg_id = k + 1, wg_location = (c_x c ! k, c_y c ! k),
                                   wg_eta = c_eta c ! k,
                                   wg_datetime = Some (time_axis (c_date c))\<rparr>)
             [0..<min (length (c_x c)) (length (c_y c))]"
  by (simp add: load_wave_data_valid_time_codes [OF assms(1)]
      construct_wave_gauges_enough_rows [OF assms(2)])

theorem load_wave_data_gauges_witness:
  "valid_time_codes (c_date container_gauge_rows)
   \<and> min (length (c_x container_gauge_rows)) (length (c_y container_gauge_rows))
       \<le> length (c_eta container_gauge_rows)
   \<and> wave_gauges (snd (load_wave_data container_gauge_rows run001)) =
       [WaveGaugeObj \<lparr>wg_id = 1, wg_location = (10, 0), wg_eta = [1, 2],
                      wg_datetime = Some [63040334400000000, 63040356000000000]\<rparr>,
        WaveGaugeObj \<lparr>wg_id = 2, wg_location = (20, 0), wg_eta = [3, 4],
                      wg_datetime = Some [63040334400000000, 63040356000000000]\<rparr>,
        WaveGaugeObj \<lparr>wg_id = 3, wg_location = (30, 0), wg_eta = [5, 6],
                      wg_datetime = Some [63040334400000000, 63040356000000000]\<rparr>]"
proof -
  have valid: "valid_time_codes (c_date container_gauge_rows)"
    using example_codes
    by (simp add: container_gauge_rows_def time_eval_defs Let_def)
  have axis: "time_axis (c_date container_gauge_rows) = [63040334400000000, 63040356000000000]"
    using example_codes
    by (simp add: container_gauge_rows_def time_eval_defs Let_def)
  have rows: "min (length (c_x container_gauge_rows)) (length (c_y container_gauge_rows))
       \<le> length (c_eta container_gauge_rows)"
    by (simp add: container_gauge_rows_def)
  have upt3: "[0..<3] = [0, 1, 2]"
    by (simp add: upt_rec)
  from load_wave_data_gauges [OF valid rows, of run001] valid rows
  show ?thesis
    by (simp add: axis upt3) (simp add: container_gauge_rows_def run001_def Run_init_def)
qed

text \<open>
  The claim as it was stated fails for \<^verbatim>\<open>eta\<close> of shape \<open>T \<times> G\<close>: with three times
  and two gauges, the first gauge is given the first row \<^verbatim>\<open>[1, 2]\<close>, a series of length
  \<open>G\<close>, where column 0 of \<^verbatim>\<open>eta\<close> is \<^verbatim>\<open>[1, 3, 5]\<close>.
\<close>

theorem load_wave_data_row_not_column_counterexample:
  "length (c_date container_time_rows) = 3
   \<and> length (c_x container_time_rows) = 2
   \<and> fst (load_wave_data container_time_rows run001) = None
   \<and> wave_gauges (snd (load_wave_data container_time_rows run001)) ! 0 =
       WaveGaugeObj \<lparr>wg_id = 1, wg_location = (10, 0), wg_eta = [1, 2],
                     wg_datetime =
                       Some [63040334400000000, 63040356000000000, 63040377600000000]\<rparr>
   \<and> column 0 (c_eta container_time_rows) = [1, 3, 5]"
  using example_codes
  by (simp add: container_time_rows_def load_eval_defs time_eval_defs column_def Let_def)

text \<open>
  Claim C4, as the code has it. \<^verbatim>\<open>load_wave_data\<close> compares no shapes. For time codes
  that convert, loading returns whenever \<^verbatim>\<open>eta\<close> has a row for each zipped pair of
  positions, whatever the lengths of \<^verbatim>\<open>date\<close>, \<^verbatim>\<open>x\<close> and the rows of \<^verbatim>\<open>eta\<close> are;
  when \<^verbatim>\<open>eta\<close> has fewer rows it fails with IndexError, after the time axis, the start
  date, the number of times and the wave maker have been stored in the object.
\<close>

theorem load_wave_data_no_shape_check:
  assumes "valid_time_codes (c_date c)"
  shows "(min (length (c_x c)) (length (c_y c)) \<le> length (c_eta c) \<longrightarrow>
            fst (load_wave_data c self) = None)
       \<and> (length (c_eta c) < min (length (c_x c)) (length (c_y c)) \<longrightarrow>
            load_wave_data c self =
              (Some IndexError,
               self\<lparr>datetime := Some (time_axis (c_date c)),
                     start_date := Some (date_of (hd (time_axis (c_date c)))),
                     num_times := Some (length (c_date c)),
                     wave_maker := Some \<lparr>eta_wm = c_eta_wm c, position = c_x_wm c,
                                          wm_datetime = Some (time_axis (c_date c))\<rparr>\<rparr>))"
  by (simp add: load_wave_data_valid_time_codes [OF assms]
      construct_wave_gauges_enough_rows construct_wave_gauges_too_few_rows)

theorem load_wave_data_no_shape_check_witness:
  "valid_time_codes (c_date container_mismatched)
   \<and> min (length (c_x container_mismatched)) (length (c_y container_mismatched))
       \<le> length (c_eta container_mismatched)
   \<and> fst (load_wave_data container_mismatched run001) = None
   \<and> valid_time_codes (c_date container_unequal_xy)
   \<and> length (c_eta container_unequal_xy)
       < min (length (c_x container_unequal_xy)) (length (c_y container_unequal_xy))
   \<and> load_wave_data container_unequal_xy run001 =
       (Some IndexError,
        run001\<lparr>datetime := Some [63040334400000000], start_date := Some 729633,
               num_times := Some 1,
               wave_maker := Some \<lparr>eta_wm = [7], position = [-1],
                                    wm_datetime = Some [63040334400000000]\<rparr>\<rparr>)"
proof -
  have valid1: "valid_time_codes (c_date container_mismatched)"
    using example_codes
    by (simp add: container_mismatched_def time_eval_defs Let_def)
  have valid2: "valid_time_codes (c_date container_unequal_xy)"
    using example_codes
    by (simp add: container_unequal_xy_def time_eval_defs Let_def)
  have axis2: "time_axis (c_date container_unequal_xy) = [63040334400000000]"
    using example_codes
    by (simp add: container_unequal_xy_def time_eval_defs Let_def)
  have rows1: "min (length (c_x container_mismatched)) (length (c_y container_mismatched))
       \<le> length (c_eta container_mismatched)"
    by (simp add: container_mismatched_def)
  have rows2: "length (c_eta container_unequal_xy)
       < min (length (c_x container_unequal_xy)) (length (c_y container_unequal_xy))"
    by (simp add: container_unequal_xy_def)
  from load_wave_data_no_shape_check [OF valid1, of run001]
    load_wave_data_no_shape_check [OF valid2, of run001] valid1 valid2 rows1 rows2
  show ?thesis
    by (simp add: axis2) (simp add: container_unequal_xy_def date_of_def us_per_day_def)
qed

text \<open>
  The claim as it was stated fails: a container whose \<^verbatim>\<open>eta\<close> has three rows of length 1
  beside one time code and two gauge positions is loaded without any exception, and the
  fields of the object are populated.
\<close>

theorem load_wave_data_mismatched_counterexample:
  "length (c_eta container_mismatched) \<noteq> length (c_date container_mismatched)
   \<and> list_all (\<lambda>row. length row \<noteq> length (c_x container_mismatched))
       (c_eta container_mismatched)
   \<and> fst (load_wave_data container_mismatched run001) = None
   \<and> num_times (snd (load_wave_data container_mismatched run001)) = Some 1
   \<and> num_wave_gauges (snd (load_wave_data container_mismatched run001)) = Some 2"
  using example_codes
  by (simp add: container_mismatched_def load_eval_defs time_eval_defs Let_def)

text \<open>
  Claim C10, as the code has it. The gauges are built from \<^verbatim>\<open>zip(x_loc, y_loc)\<close>, which
  stops at the shorter array, and each needs its row of \<^verbatim>\<open>eta\<close>. When \<^verbatim>\<open>eta\<close> has at
  least as many rows as the shorter of the two position arrays, the construction returns
  and adds that many gauges, whatever the two lengths are, so that the gauge count
  can differ from the length of either array; when \<^verbatim>\<open>eta\<close> has fewer rows, it fails with
  IndexError and adds no gauge.
\<close>

theorem construct_wave_gauges_zip:
  "(min (length x_loc) (length y_loc) \<le> length eta \<longrightarrow>
      construct_wave_gauges x_loc y_loc eta self =
        (None,
         self\<lparr>wave_gauges :=
                wave_gauges self @
                map (\<lambda>k. WaveGaugeObj \<lparr>wg_id = k + 1, wg_location = (x_loc ! k, y_loc ! k),
                                        wg_eta = eta ! k, wg_datetime = datetime self\<rparr>)
                  [0..<min (length x_loc) (length y_loc)],
              num_wave_gauges :=
                Some (length (wave_gauges self) + min (length x_loc) (length y_loc))\<rparr>))
   \<and> (length eta < min (length x_loc) (length y_loc) \<longrightarrow>
      construct_wave_gauges x_loc y_loc eta self = (Some IndexError, self))"
  by (simp add: construct_wave_gauges_enough_rows construct_wave_gauges_too_few_rows)

theorem construct_wave_gauges_zip_witness:
  "min (length [10, 20, 30 :: int]) (length [0, 0 :: int]) \<le> length [[1 :: int], [2]]
   \<and> construct_wave_gauges [10, 20, 30] [0, 0] [[1], [2]] run001 =
       (None,
        run001\<lparr>wave_gauges :=
                 [WaveGaugeObj \<lparr>wg_id = 1, wg_location = (10, 0), wg_eta = [1],
                                wg_datetime = None\<rparr>,
                  WaveGaugeObj \<lparr>wg_id = 2, wg_location = (20, 0), wg_eta = [2],
                                wg_datetime = None\<rparr>],
               num_wave_gauges := Some 2\<rparr>)
   \<and> length [[1, 2, 3 :: int]] < min (length [10, 20, 30 :: int]) (length [0, 0 :: int])
   \<and> construct_wave_gauges [10, 20, 30] [0, 0] [[1, 2, 3]] run001 = (Some IndexError, run001)"
proof -
  have upt2: "[0..<2] = [0, 1]"
    by (simp add: upt_rec)
  from construct_wave_gauges_zip [of "[10, 20, 30]" "[0, 0]" "[[1], [2]]" run001]
    construct_wave_gauges_zip [of "[10, 20, 30]" "[0, 0]" "[[1, 2, 3]]" run001]
  show ?thesis
    by (simp add: upt2 run001_def Run_init_def)
qed

text \<open>
  The claim as it was stated fails: with position arrays of lengths 3 and 2 and an
  \<^verbatim>\<open>eta\<close> of one row, the construction of the second gauge raises IndexError during
  the load, and no gauge is added.
\<close>

theorem load_wave_data_unequal_xy_counterexample:
  "length (c_x container_unequal_xy) \<noteq> length (c_y container_unequal_xy)
   \<and> fst (load_wave_data container_unequal_xy run001) = Some IndexError
   \<and> wave_gauges (snd (load_wave_data container_unequal_xy run001)) = []
   \<and> num_wave_gauges (snd (load_wave_data container_unequal_xy run001)) = None"
  using example_codes
  by (simp add: container_unequal_xy_def load_eval_defs time_eval_defs Let_def)

subsection \<open>The flume surface matrices\<close>

text \<open>
  The three slice assignments of \<^verbatim>\<open>construct_flume_wse\<close> on an array of zeros whose
  first column has been written, for operands of the shapes that fit.
\<close>

lemma set_column_zeros:
  "length v = t \<Longrightarrow>
     set_column (np_zeros t (Suc g)) 0 v =
       Inr \<lparr>nrows = t, ncols = Suc g, rows_of = map (\<lambda>c. c # replicate g 0) v\<rparr>"
  by (simp add: set_column_def np_zeros_def broadcast1_def map2_map_map [symmetric]
      zip_replicate1 list_eq_iff_nth_eq)

lemma set_columns_from1_vec_first:
  "length xs = g \<Longrightarrow>
     set_columns_from1_vec \<lparr>nrows = t, ncols = Suc g, rows_of = map (\<lambda>c. c # zs) v\<rparr> xs =
       Inr \<lparr>nrows = t, ncols = Suc g, rows_of = map (\<lambda>c. c # xs) v\<rparr>"
  by (simp add: set_columns_from1_vec_def broadcast1_def)

lemma set_columns_from1_mat_first:
  assumes "has_shape t g b" and "length v = t"
  shows "set_columns_from1_mat \<lparr>nrows = t, ncols = Suc g, rows_of = map (\<lambda>c. c # zs) v\<rparr> b =
       Inr \<lparr>nrows = t, ncols = Suc g, rows_of = map2 (#) v (rows_of b)\<rparr>"
proof -
  from assms have len: "length (rows_of b) = t" and rows: "\<forall>r \<in> set (rows_of b). length r = g"
    and nr: "nrows b = t" and nc: "ncols b = g"
    by (simp_all add: has_shape_def list_all_iff)
  have "map2 (\<lambda>r s. take 1 r @ (if length s = g then s else replicate g (hd s)))
          (map (\<lambda>c. c # zs) v) (rows_of b) = map2 (#) v (rows_of b)"
    using len assms(2) rows
    by (auto simp add: list_eq_iff_nth_eq)
  then show ?thesis
    using len nr nc by (simp add: set_columns_from1_mat_def broadcast1_def cong: if_cong)
qed


lemma construct_flume_wse_result:
  assumes "num_times self = Some t" and "num_wave_gauges self = Some g"
    and "wave_maker self = Some wm"
    and "length (eta_wm wm) = t" and "length (position wm) = t"
    and "wave_gauge_wse self = Some wse" and "has_shape t g wse"
    and "wg_locations self = Some locs" and "length locs = g"
  shows "construct_flume_wse self =
           (None,
            self\<lparr>flume_wse :=
                   Some \<lparr>nrows = t, ncols = g + 1,
                         rows_of = map2 (#) (eta_wm wm) (rows_of wse)\<rparr>,
                 flume_wse_locs :=
                   Some \<lparr>nrows = t, ncols = g + 1,
                         rows_of = map (\<lambda>p. p # map fst locs) (position wm)\<rparr>\<rparr>)"
  unfolding construct_flume_wse_def
  by (simp add: assms(1,2,3,6,8) set_column_zeros [OF assms(4)] set_column_zeros [OF assms(5)]
      set_columns_from1_vec_first assms(9)
      set_columns_from1_mat_first [OF assms(7) assms(4)])

text \<open>
  What \<^verbatim>\<open>construct_wave_gauge_wse\<close> and \<^verbatim>\<open>get_wave_gauge_locations\<close> store when
  they return: a matrix of shape \<open>num_times \<times> num_wave_gauges\<close> and a table of
  \<open>num_wave_gauges\<close> rows. After the two of them, \<^verbatim>\<open>construct_flume_wse\<close> returns
  when the two series of the wave maker have \<open>num_times\<close> entries.
\<close>

lemma has_shape_np_zeros: "has_shape t g (np_zeros t g)"
  by (simp add: has_shape_def np_zeros_def list_all_iff)

lemma has_shape_set_column:
  assumes "has_shape t g a" and "set_column a i v = Inr a'"
  shows "has_shape t g a'"
proof -
  from assms(2) obtain w where w: "broadcast1 (nrows a) v = Inr w"
    and a': "a' = a\<lparr>rows_of := map2 (\<lambda>r c. r[i := c]) (rows_of a) w\<rparr>"
    by (auto simp add: set_column_def split: if_splits sum.splits)
  from w have "length w = nrows a"
    by (auto simp add: broadcast1_def split: if_splits)
  with assms(1) show ?thesis
    unfolding a' by (auto simp add: has_shape_def list_all_iff dest: set_zip_leftD)
qed

lemma has_shape_surface_elevations_loop:
  "has_shape t g a \<Longrightarrow> surface_elevations_loop i gs a = Inr a' \<Longrightarrow> has_shape t g a'"
proof (induction gs arbitrary: i a)
  case Nil
  then show ?case by simp
next
  case (Cons x gs)
  show ?case
  proof (cases x)
    case (WaveGaugeObj wg)
    with Cons.prems(2) obtain a1 where "set_column a i (wg_eta wg) = Inr a1"
      and "surface_elevations_loop (i + 1) gs a1 = Inr a'"
      by (auto split: sum.splits)
    with Cons.IH Cons.prems(1) show ?thesis
      by (blast intro: has_shape_set_column)
  qed (use Cons.prems(2) in simp_all)
qed

lemma construct_wave_gauge_wse_shape:
  assumes "construct_wave_gauge_wse self = (None, self')"
  shows "\<exists>t g wse. num_times self = Some t \<and> num_wave_gauges self = Some g \<and>
           self' = self\<lparr>wave_gauge_wse := Some wse\<rparr> \<and> has_shape t g wse"
  using assms
  by (auto simp add: construct_wave_gauge_wse_def split: option.splits sum.splits
      intro: has_shape_surface_elevations_loop [OF has_shape_np_zeros])

lemma length_location_loop:
  "location_loop i gs location = Inr location' \<Longrightarrow> length location' = length location"
proof (induction gs arbitrary: i location)
  case Nil
  then show ?case by simp
next
  case (Cons x gs)
  show ?case
  proof (cases x)
    case (WaveGaugeObj wg)
    with Cons.prems have
      "location_loop (i + 1) gs (location[i := wg_location wg]) = Inr location'"
      by (auto split: if_splits)
    from Cons.IH [OF this] show ?thesis by simp
  qed (use Cons.prems in simp_all)
qed

lemma get_wave_gauge_locations_length:
  assumes "get_wave_gauge_locations self = (None, self')"
  shows "\<exists>g locs. num_wave_gauges self = Some g \<and>
           self' = self\<lparr>wg_locations := Some locs\<rparr> \<and> length locs = g"
proof -
  from assms obtain g locs where g: "num_wave_gauges self = Some g"
    and loop: "location_loop 0 (wave_gauges self) (replicate g (0, 0)) = Inr locs"
    and self': "self' = self\<lparr>wg_locations := Some locs\<rparr>"
    by (auto simp add: get_wave_gauge_locations_def split: option.splits sum.splits)
  from length_location_loop [OF loop] have "length locs = g" by simp
  with g self' show ?thesis by blast
qed

lemma construct_flume_wse_after_builds:
  assumes wse: "construct_wave_gauge_wse s0 = (None, s1)"
    and locs: "get_wave_gauge_locations s1 = (None, s2)"
    and wm: "wave_maker s0 = Some wm"
    and len: "num_times s0 = Some (length (eta_wm wm))" "length (position wm) = length (eta_wm wm)"
  shows "fst (construct_flume_wse s2) = None"
proof -
  from construct_wave_gauge_wse_shape [OF wse] len(1) obtain g m where
    g: "num_wave_gauges s0 = Some g" and s1: "s1 = s0\<lparr>wave_gauge_wse := Some m\<rparr>"
    and m: "has_shape (length (eta_wm wm)) g m"
    by auto
  from get_wave_gauge_locations_length [OF locs] g s1 obtain l where
    s2: "s2 = s1\<lparr>wg_locations := Some l\<rparr>" and l: "length l = g"
    by auto
  have "construct_flume_wse s2 =
          (None,
           s2\<lparr>flume_wse :=
                 Some \<lparr>nrows = length (eta_wm wm), ncols = g + 1,
                       rows_of = map2 (#) (eta_wm wm) (rows_of m)\<rparr>,
               flume_wse_locs :=
                 Some \<lparr>nrows = length (eta_wm wm), ncols = g + 1,
                       rows_of = map (\<lambda>p. p # map fst l) (position wm)\<rparr>\<rparr>)"
    by (rule construct_flume_wse_result) (simp_all add: s2 s1 g wm len m l)
  then show ?thesis by simp
qed

text \<open>The example objects, evaluated.\<close>

lemmas derived_eval_defs =
  construct_wave_gauge_wse_def get_wave_gauge_locations_def np_zeros_def set_column_def
  broadcast1_def numeral_2_eq_2 numeral_3_eq_3

lemma run_loaded_eq:
  "run_loaded =
     run001\<lparr>datetime := Some [63040334400000000, 63040356000000000],
            start_date := Some 729633, num_times := Some 2,
            wave_gauges :=
              [WaveGaugeObj \<lparr>wg_id = 1, wg_location = (10, 0), wg_eta = [1, 2],
                 wg_datetime = Some [63040334400000000, 63040356000000000]\<rparr>,
               WaveGaugeObj \<lparr>wg_id = 2, wg_location = (20, 0), wg_eta = [3, 4],
                 wg_datetime = Some [63040334400000000, 63040356000000000]\<rparr>,
               WaveGaugeObj \<lparr>wg_id = 3, wg_location = (30, 0), wg_eta = [5, 6],
                 wg_datetime = Some [63040334400000000, 63040356000000000]\<rparr>],
            num_wave_gauges := Some 3,
            wave_maker := Some \<lparr>eta_wm = [7, 8], position = [-1, -2],
                 wm_datetime = Some [63040334400000000, 63040356000000000]\<rparr>\<rparr>"
  using example_codes
  by (simp add: run_loaded_def container_gauge_rows_def load_eval_defs time_eval_defs Let_def)

lemma run_wse_built_eq:
  "run_wse_built =
     run_loaded\<lparr>wave_gauge_wse :=
                  Some \<lparr>nrows = 2, ncols = 3, rows_of = [[1, 3, 5], [2, 4, 6]]\<rparr>\<rparr>"
  by (simp add: run_wse_built_def run_loaded_eq run001_def Run_init_def derived_eval_defs)

lemma run_derived_eq:
  "run_derived = run_wse_built\<lparr>wg_locations := Some [(10, 0), (20, 0), (30, 0)]\<rparr>"
  by (simp add: run_derived_def run_wse_built_eq run_loaded_eq run001_def Run_init_def
      derived_eval_defs)


text \<open>
  Claim C9, as the code has it. \<^verbatim>\<open>construct_flume_wse\<close> compares no lengths, so the
  claim needs the shapes to fit: let the gauge surface matrix of shape \<open>T \<times> G\<close> and the
  location table of \<open>G\<close> rows be built for the \<open>T = num_times\<close> and
  \<open>G = num_wave_gauges\<close> that the object has now, and let the two series of its wave
  maker have exactly \<open>T\<close> entries. Then \<^verbatim>\<open>construct_flume_wse\<close> returns and stores
  two arrays of shape \<open>T \<times> (G + 1)\<close>: row \<open>i\<close> of \<^verbatim>\<open>flume_wse\<close> is the wave
  maker's elevation \<open>i\<close> followed by row \<open>i\<close> of the gauge surface matrix, row \<open>i\<close>
  of \<^verbatim>\<open>flume_wse_locs\<close> is the wave maker's position \<open>i\<close> followed by the \<open>x\<close>
  locations of the gauges. So column 0 of either is the wave maker's series itself, column
  \<open>j + 1\<close> of the elevations is column \<open>j\<close> of the gauge surface matrix, and column
  \<open>j + 1\<close> of the positions is the \<open>x\<close> location of gauge \<open>j\<close> in every one of
  the \<open>T\<close> rows.
\<close>

theorem construct_flume_wse_columns:
  assumes "num_times self = Some t" and "num_wave_gauges self = Some g"
    and "wave_maker self = Some wm"
    and "length (eta_wm wm) = t" and "length (position wm) = t"
    and "wave_gauge_wse self = Some wse" and "has_shape t g wse"
    and "wg_locations self = Some locs" and "length locs = g"
  shows "construct_flume_wse self =
           (None,
            self\<lparr>flume_wse :=
                   Some \<lparr>nrows = t, ncols = g + 1,
                         rows_of = map2 (#) (eta_wm wm) (rows_of wse)\<rparr>,
                 flume_wse_locs :=
                   Some \<lparr>nrows = t, ncols = g + 1,
                         rows_of = map (\<lambda>p. p # map fst locs) (position wm)\<rparr>\<rparr>)
         \<and> has_shape t (g + 1)
             \<lparr>nrows = t, ncols = g + 1, rows_of = map2 (#) (eta_wm wm) (rows_of wse)\<rparr>
         \<and> has_shape t (g + 1)
             \<lparr>nrows = t, ncols = g + 1, rows_of = map (\<lambda>p. p # map fst locs) (position wm)\<rparr>
         \<and> column 0 (map2 (#) (eta_wm wm) (rows_of wse)) = eta_wm wm
         \<and> column 0 (map (\<lambda>p. p # map fst locs) (position wm)) = position wm
         \<and> (\<forall>j < g. column (j + 1) (map2 (#) (eta_wm wm) (rows_of wse)) =
                        column j (rows_of wse))
         \<and> (\<forall>j < g. column (j + 1) (map (\<lambda>p. p # map fst locs) (position wm)) =
                        replicate t (fst (locs ! j)))"
proof -
  from assms(7) have len: "length (rows_of wse) = t"
    and rows: "\<forall>r \<in> set (rows_of wse). length r = g"
    by (simp_all add: has_shape_def list_all_iff)
  note run = construct_flume_wse_result [OF assms]
  have shape_w: "has_shape t (g + 1)
             \<lparr>nrows = t, ncols = g + 1, rows_of = map2 (#) (eta_wm wm) (rows_of wse)\<rparr>"
    using len rows assms(4)
    by (auto simp add: has_shape_def list_all_iff dest: set_zip_rightD)
  have shape_x: "has_shape t (g + 1)
             \<lparr>nrows = t, ncols = g + 1, rows_of = map (\<lambda>p. p # map fst locs) (position wm)\<rparr>"
    using assms(5,9) by (simp add: has_shape_def list_all_iff)
  have col0_w: "column 0 (map2 (#) (eta_wm wm) (rows_of wse)) = eta_wm wm"
    using len assms(4) by (simp add: column_def list_eq_iff_nth_eq)
  have col0_x: "column 0 (map (\<lambda>p. p # map fst locs) (position wm)) = position wm"
    by (simp add: column_def list_eq_iff_nth_eq)
  have cols_w: "\<forall>j < g. column (j + 1) (map2 (#) (eta_wm wm) (rows_of wse)) =
                        column j (rows_of wse)"
    using len assms(4) by (simp add: column_def list_eq_iff_nth_eq)
  have cols_x: "\<forall>j < g. column (j + 1) (map (\<lambda>p. p # map fst locs) (position wm)) =
                        replicate t (fst (locs ! j))"
    using assms(5,9) by (simp add: column_def list_eq_iff_nth_eq)
  from run shape_w shape_x col0_w col0_x cols_w cols_x show ?thesis
    by blast
qed

theorem construct_flume_wse_columns_witness:
  "num_times run_derived = Some 2 \<and> num_wave_gauges run_derived = Some 3
   \<and> wave_maker run_derived =
       Some \<lparr>eta_wm = [7, 8], position = [-1, -2],
              wm_datetime = Some [63040334400000000, 63040356000000000]\<rparr>
   \<and> wave_gauge_wse run_derived =
       Some \<lparr>nrows = 2, ncols = 3, rows_of = [[1, 3, 5], [2, 4, 6]]\<rparr>
   \<and> has_shape 2 3 \<lparr>nrows = 2, ncols = 3, rows_of = [[1, 3, 5], [2, 4, 6 :: int]]\<rparr>
   \<and> wg_locations run_derived = Some [(10, 0), (20, 0), (30, 0)]
   \<and> construct_flume_wse run_derived =
       (None,
        run_derived
          \<lparr>flume_wse :=
             Some \<lparr>nrows = 2, ncols = 4, rows_of = [[7, 1, 3, 5], [8, 2, 4, 6]]\<rparr>,
           flume_wse_locs :=
             Some \<lparr>nrows = 2, ncols = 4,
                   rows_of = [[-1, 10, 20, 30], [-2, 10, 20, 30]]\<rparr>\<rparr>)"
proof -
  let ?wm = "\<lparr>eta_wm = [7, 8], position = [-1, -2 :: int],
              wm_datetime = Some [63040334400000000, 63040356000000000]\<rparr>"
  let ?wse = "\<lparr>nrows = 2, ncols = 3, rows_of = [[1, 3, 5], [2, 4, 6 :: int]]\<rparr>"
  let ?locs = "[(10, 0), (20, 0), (30, 0 :: int)]"
  have t: "num_times run_derived = Some 2" and g: "num_wave_gauges run_derived = Some 3"
    and wm: "wave_maker run_derived = Some ?wm"
    and wse: "wave_gauge_wse run_derived = Some ?wse"
    and locs: "wg_locations run_derived = Some ?locs"
    by (simp_all add: run_derived_eq run_wse_built_eq run_loaded_eq)
  have shape: "has_shape 2 3 ?wse"
    by (simp add: has_shape_def)
  from construct_flume_wse_columns [OF t g wm _ _ wse shape locs] t g wm wse shape locs
  show ?thesis
    by simp
qed

text \<open>
  The claim as it was stated, for every Run with the matrix and the table built, fails in
  three ways. A container whose wave maker arrays have three samples beside two time codes
  is loaded and both are built, and then \<^verbatim>\<open>x_location[:, 0] = self.wave_maker.position\<close>
  raises ValueError. With wave maker arrays of one sample the call returns, and column 0 of
  \<^verbatim>\<open>flume_wse\<close> is \<^verbatim>\<open>[7, 7]\<close> where the wave maker's series is \<^verbatim>\<open>[7]\<close>. With a
  fourth gauge added after the table of three rows was built, the assignment of the
  \<open>x\<close> locations raises ValueError.
\<close>

lemmas built_eval_defs =
  loaded_and_built_def container_gauge_rows_def load_eval_defs time_eval_defs
  derived_eval_defs Let_def

theorem construct_flume_wse_wave_maker_length_counterexample:
  "num_times (loaded_and_built container_long_wave_maker) = Some 2
   \<and> num_wave_gauges (loaded_and_built container_long_wave_maker) = Some 3
   \<and> wave_gauge_wse (loaded_and_built container_long_wave_maker) =
       Some \<lparr>nrows = 2, ncols = 3, rows_of = [[1, 3, 5], [2, 4, 6]]\<rparr>
   \<and> wg_locations (loaded_and_built container_long_wave_maker) =
       Some [(10, 0), (20, 0), (30, 0)]
   \<and> construct_flume_wse (loaded_and_built container_long_wave_maker) =
       (Some ValueError, loaded_and_built container_long_wave_maker)
   \<and> wave_gauge_wse (loaded_and_built container_short_wave_maker) =
       Some \<lparr>nrows = 2, ncols = 3, rows_of = [[1, 3, 5], [2, 4, 6]]\<rparr>
   \<and> wg_locations (loaded_and_built container_short_wave_maker) =
       Some [(10, 0), (20, 0), (30, 0)]
   \<and> map_option eta_wm (wave_maker (loaded_and_built container_short_wave_maker)) = Some [7]
   \<and> fst (construct_flume_wse (loaded_and_built container_short_wave_maker)) = None
   \<and> flume_wse (snd (construct_flume_wse (loaded_and_built container_short_wave_maker))) =
       Some \<lparr>nrows = 2, ncols = 4, rows_of = [[7, 1, 3, 5], [7, 2, 4, 6]]\<rparr>
   \<and> wave_gauge_wse run_fourth_gauge =
       Some \<lparr>nrows = 2, ncols = 3, rows_of = [[1, 3, 5], [2, 4, 6]]\<rparr>
   \<and> wg_locations run_fourth_gauge = Some [(10, 0), (20, 0), (30, 0)]
   \<and> num_wave_gauges run_fourth_gauge = Some 4
   \<and> construct_flume_wse run_fourth_gauge = (Some ValueError, run_fourth_gauge)"
proof -
  have long: "loaded_and_built container_long_wave_maker =
     run_derived\<lparr>wave_maker := Some \<lparr>eta_wm = [7, 8, 9], position = [-1, -2, -3],
        wm_datetime = Some [63040334400000000, 63040356000000000]\<rparr>\<rparr>"
    using example_codes
    by (simp add: container_long_wave_maker_def built_eval_defs run_derived_eq run_wse_built_eq
        run_loaded_eq)
  have short: "loaded_and_built container_short_wave_maker =
     run_derived\<lparr>wave_maker := Some \<lparr>eta_wm = [7], position = [-1],
        wm_datetime = Some [63040334400000000, 63040356000000000]\<rparr>\<rparr>"
    using example_codes
    by (simp add: container_short_wave_maker_def built_eval_defs run_derived_eq
        run_wse_built_eq run_loaded_eq)
  have fourth: "run_fourth_gauge =
     run_derived\<lparr>wave_gauges := wave_gauges run_derived @
         [WaveGaugeObj \<lparr>wg_id = 4, wg_location = (40, 0), wg_eta = [7, 8],
                         wg_datetime = None\<rparr>],
       num_wave_gauges := Some 4\<rparr>"
    by (simp add: run_fourth_gauge_def add_wave_gauge_def run_derived_eq run_wse_built_eq
        run_loaded_eq run001_def Run_init_def)
  show ?thesis
    unfolding long short fourth
    by (simp add: run_derived_eq run_wse_built_eq run_loaded_eq run001_def Run_init_def
        construct_flume_wse_def np_zeros_def set_column_def set_columns_from1_vec_def
        set_columns_from1_mat_def broadcast1_def numeral_2_eq_2 numeral_3_eq_3)
qed

text \<open>
  In general a wave maker whose position series has neither \<open>num_times\<close> entries nor one
  entry ends the call in ValueError.
\<close>

lemma construct_flume_wse_wave_maker_mismatch:
  assumes "num_times self = Some t" and "num_wave_gauges self = Some g"
    and "wave_maker self = Some wm"
    and "length (position wm) \<noteq> t" and "length (position wm) \<noteq> 1"
  shows "construct_flume_wse self = (Some ValueError, self)"
  using assms
  by (simp add: construct_flume_wse_def set_column_def np_zeros_def broadcast1_def)







end
